theory Spec2Isabelle
  imports Complex_Main
begin

section \<open>Data model\<close>

text \<open>
  The section meshing and fiber discretisation core of the fiber-section editor:
  \<^verbatim>\<open>geometry/shapes.py\<close>, \<^verbatim>\<open>meshing/mesh.py\<close> and \<^verbatim>\<open>data/data_manager.py\<close>.
  Exceptions are values of \<open>py_error\<close>; a function that mutates objects and may raise
  returns the error (if any) together with the state as the exception leaves it.
\<close>

type_synonym point = "real \<times> real"

datatype py_error =
  IndexError | KeyError | ZeroDivisionError | AttributeError | ValueError | OverflowError

subsection \<open>Floating-point numbers\<close>

text \<open>
  A Python float is carried by a real number: a coordinate, an area or a mesh size in this
  model is the carrier of a float, and a decimal literal of the source is carried by the
  number it denotes. The model never computes with carriers itself. What the sum,
  difference, product and quotient of two floats are (CPython's doubles round, overflow to
  an infinity, give NaN), which float an integer converts to and which carriers the two
  infinities have is the parameter \<open>float_arith\<close>; its \<open>f_value\<close> reads a carried float as
  a finite value, an infinity or NaN. Comparisons, \<^verbatim>\<open>min\<close>, \<^verbatim>\<open>max\<close> and \<^verbatim>\<open>int()\<close> are
  defined from the values, as IEEE 754 and Python define them.
\<close>

datatype fvalue = Fin real | PosInf | NegInf | NaN

record float_arith =
  f_value :: "real \<Rightarrow> fvalue"
  f_inf :: real
  f_neg_inf :: real
  f_of_int :: "int \<Rightarrow> real"
  f_add :: "real \<Rightarrow> real \<Rightarrow> real"
  f_sub :: "real \<Rightarrow> real \<Rightarrow> real"
  f_mul :: "real \<Rightarrow> real \<Rightarrow> real"
  f_div :: "real \<Rightarrow> real \<Rightarrow> real"

text \<open>The order of the floats: NaN is below nothing and nothing is below NaN.\<close>

fun value_less :: "fvalue \<Rightarrow> fvalue \<Rightarrow> bool" where
  "value_less (Fin a) (Fin b) = (a < b)"
| "value_less (Fin a) PosInf = True"
| "value_less NegInf (Fin b) = True"
| "value_less NegInf PosInf = True"
| "value_less u v = False"

definition float_less :: "float_arith \<Rightarrow> real \<Rightarrow> real \<Rightarrow> bool" where
  "float_less A a b = value_less (f_value A a) (f_value A b)"

text \<open>\<^verbatim>\<open>a == b\<close> on floats: equal values, and NaN equals nothing.\<close>

definition float_eq :: "float_arith \<Rightarrow> real \<Rightarrow> real \<Rightarrow> bool" where
  "float_eq A a b \<longleftrightarrow> f_value A a \<noteq> NaN \<and> f_value A a = f_value A b"

text \<open>
  \<^verbatim>\<open>min(a, b)\<close> and \<^verbatim>\<open>max(a, b)\<close> of two arguments keep \<open>a\<close> unless \<open>b\<close> is strictly
  smaller, respectively strictly greater.
\<close>

definition py_min :: "float_arith \<Rightarrow> real \<Rightarrow> real \<Rightarrow> real" where
  "py_min A a b = (if float_less A b a then b else a)"

definition py_max :: "float_arith \<Rightarrow> real \<Rightarrow> real \<Rightarrow> real" where
  "py_max A a b = (if float_less A a b then b else a)"

text \<open>
  \<^verbatim>\<open>int()\<close> of a float truncates towards zero; it raises OverflowError on an infinity
  and ValueError on NaN.
\<close>

definition towards_zero :: "real \<Rightarrow> int" where
  "towards_zero x = (if 0 \<le> x then \<lfloor>x\<rfloor> else \<lceil>x\<rceil>)"

definition py_int :: "float_arith \<Rightarrow> real \<Rightarrow> py_error + int" where
  "py_int A x =
     (case f_value A x of
        Fin r \<Rightarrow> Inr (towards_zero r)
      | PosInf \<Rightarrow> Inl OverflowError
      | NegInf \<Rightarrow> Inl OverflowError
      | NaN \<Rightarrow> Inl ValueError)"

text \<open>
  The values a mesh size can hold: \<open>None\<close>, a number (the carrier of the float that
  \<^verbatim>\<open>float()\<close> makes of it), or anything on which \<^verbatim>\<open>float()\<close> raises ValueError or
  TypeError (a non-numeric string, a list, ...).
\<close>

datatype py_value = PyNone | PyNum real | PyInvalid

text \<open>List indexing as Python does it: negative indices count from the end.\<close>

definition list_get :: "'a list \<Rightarrow> int \<Rightarrow> py_error + 'a" where
  "list_get xs i =
     (if 0 \<le> i \<and> i < int (length xs) then Inr (xs ! nat i)
      else if i < 0 \<and> - int (length xs) \<le> i then Inr (xs ! nat (int (length xs) + i))
      else Inl IndexError)"

subsection \<open>Geometry library\<close>

text \<open>
  The shapely objects the shapes build. Only the constructions of \<^verbatim>\<open>shapes.py\<close> appear;
  what shapely computes on them is a parameter of the model (record \<open>shapely\<close>).
\<close>

datatype geometry =
    Polygon "point list"
  | Rotate geometry real point
  | Buffer point real
  | Difference geometry geometry

record shapely =
  contains :: "geometry \<Rightarrow> point \<Rightarrow> bool"
  touches :: "geometry \<Rightarrow> point \<Rightarrow> bool"
  bounds :: "geometry \<Rightarrow> real \<times> real \<times> real \<times> real"
  polygon_error :: "point list \<Rightarrow> py_error option"
  element_polygon :: "point list \<Rightarrow> py_error + (real \<times> point)"

text \<open>
  \<open>polygon_error L cs\<close> is the error that the constructor \<^verbatim>\<open>Polygon(cs)\<close> raises, if it
  raises one; the value \<open>Polygon cs\<close> stands for what it returns otherwise.
  \<open>element_polygon L cs\<close> stands for \<^verbatim>\<open>Polygon(cs)\<close> followed by its \<^verbatim>\<open>area\<close> and
  \<^verbatim>\<open>centroid\<close>: the pair (area, centroid), or the error shapely raises on \<open>cs\<close>.
  The \<open>bounds\<close> of a geometry are four floats; those of an empty geometry are NaN.
\<close>

subsection \<open>Shape, Fiber, Mesh\<close>

record shape =
  shape_id :: int
  shape_material_id :: "int option"
  shape_active :: bool
  shape_mesh_size :: "py_value option"
  shape_mesh_type :: string
  shape_vertices :: "point list"
  shape_geometry :: geometry

text \<open>
  \<open>shape_mesh_size\<close> is the attribute \<^verbatim>\<open>mesh_size\<close> as \<^verbatim>\<open>getattr\<close> sees it: \<open>None\<close> when
  the object has no such attribute, \<open>Some v\<close> when it has it with value \<open>v\<close>. The other
  attributes exist on every shape.
\<close>

record fiber =
  fiber_id :: int
  fiber_y :: real
  fiber_z :: real
  fiber_area :: real
  fiber_material_id :: int
  fiber_active :: bool

definition Fiber :: "int \<Rightarrow> real \<Rightarrow> real \<Rightarrow> real \<Rightarrow> int \<Rightarrow> fiber" where
  "Fiber i y z a m =
     \<lparr>fiber_id = i, fiber_y = y, fiber_z = z, fiber_area = a, fiber_material_id = m,
      fiber_active = True\<rparr>"

record mesh =
  mesh_id :: int
  nodes :: "point list"
  elements :: "int list list"
  element_materials :: "int list"
  fibers :: "fiber list"

definition Mesh :: "int \<Rightarrow> mesh" where
  "Mesh i = \<lparr>mesh_id = i, nodes = [], elements = [], element_materials = [], fibers = []\<rparr>"

definition add_node :: "mesh \<Rightarrow> real \<Rightarrow> real \<Rightarrow> mesh \<times> int" where
  "add_node m y z =
     (let m' = m\<lparr>nodes := nodes m @ [(y, z)]\<rparr> in (m', int (length (nodes m')) - 1))"

definition add_element :: "mesh \<Rightarrow> int list \<Rightarrow> int \<Rightarrow> mesh" where
  "add_element m node_ids material_id =
     m\<lparr>elements := elements m @ [node_ids],
       element_materials := element_materials m @ [material_id]\<rparr>"

section \<open>Mesh.generate_fibers\<close>

fun node_coords :: "point list \<Rightarrow> int list \<Rightarrow> py_error + point list" where
  "node_coords ns [] = Inr []"
| "node_coords ns (i # is) =
     (case list_get ns i of
        Inl e \<Rightarrow> Inl e
      | Inr p \<Rightarrow> (case node_coords ns is of Inl e \<Rightarrow> Inl e | Inr ps \<Rightarrow> Inr (p # ps)))"

text \<open>
  The inner loop over the shapes: the first active shape that contains the point decides,
  and the loop breaks there whether or not that shape has a material.
\<close>

fun fiber_material :: "shapely \<Rightarrow> shape list \<Rightarrow> point \<Rightarrow> int" where
  "fiber_material L [] p = 1"
| "fiber_material L (s # ss) p =
     (if shape_active s \<and> contains L (shape_geometry s) p
      then (case shape_material_id s of Some m \<Rightarrow> m | None \<Rightarrow> 1)
      else fiber_material L ss p)"

text \<open>
  The loop over the elements, with the running \<open>fiber_id\<close> and the list \<open>self.fibers\<close>
  built so far. An exception leaves the fibers appended before it.
\<close>

fun fibers_loop ::
  "shapely \<Rightarrow> shape list \<Rightarrow> point list \<Rightarrow> int list list \<Rightarrow> int \<Rightarrow> fiber list
     \<Rightarrow> py_error option \<times> fiber list" where
  "fibers_loop L shapes ns [] fid fs = (None, fs)"
| "fibers_loop L shapes ns (e # es) fid fs =
     (case node_coords ns e of
        Inl err \<Rightarrow> (Some err, fs)
      | Inr cs \<Rightarrow>
          (case element_polygon L cs of
             Inl err \<Rightarrow> (Some err, fs)
           | Inr (a, c) \<Rightarrow>
               fibers_loop L shapes ns es (fid + 1)
                 (fs @ [Fiber fid (fst c) (snd c) a (fiber_material L shapes c)])))"

text \<open>
  \<open>generate_fibers\<close> returns the error (if any) and the mesh with its new \<open>fibers\<close>;
  the list the Python returns is the \<open>fibers\<close> of that mesh.
\<close>

definition generate_fibers :: "shapely \<Rightarrow> mesh \<Rightarrow> shape list \<Rightarrow> py_error option \<times> mesh" where
  "generate_fibers L m shapes =
     (case fibers_loop L shapes (nodes m) (elements m) 1 [] of
        (err, fs) \<Rightarrow> (err, m\<lparr>fibers := fs\<rparr>))"

section \<open>SectionData, the operations and DataManager\<close>

text \<open>
  Meshes are objects shared between a section and the operations on the undo stack, so
  they live in a store and are named by references. Fibers are never mutated by the
  operations modelled here, so fiber lists are values. Names, stiffness and time stamps
  of a section are left out.
\<close>

type_synonym ref = nat

record section_data =
  section_id :: int
  shapes :: "shape list"
  mesh :: "ref option"
  section_fibers :: "fiber list"

record generate_mesh_op =
  op_section_id :: int
  old_mesh :: "ref option"
  new_mesh :: "ref option"
  old_fibers :: "fiber list option"

datatype operation =
    OperationAddShape int shape
  | OperationDeleteShape int shape
  | OperationGenerateMesh generate_mesh_op

record data_manager =
  sections :: "section_data list"
  heap :: "ref \<Rightarrow> mesh"
  undo_stack :: "operation list"
  redo_stack :: "operation list"

fun get_section_by_id :: "section_data list \<Rightarrow> int \<Rightarrow> section_data option" where
  "get_section_by_id [] sid = None"
| "get_section_by_id (s # ss) sid =
     (if section_id s = sid then Some s else get_section_by_id ss sid)"

text \<open>Mutating the section object that \<open>get_section_by_id\<close> returns.\<close>

fun update_section ::
  "int \<Rightarrow> (section_data \<Rightarrow> section_data) \<Rightarrow> section_data list \<Rightarrow> section_data list" where
  "update_section sid f [] = []"
| "update_section sid f (s # ss) =
     (if section_id s = sid then f s # ss else s # update_section sid f ss)"

definition get_active_shapes :: "section_data \<Rightarrow> shape list" where
  "get_active_shapes s = filter shape_active (shapes s)"

definition add_shape :: "shape \<Rightarrow> section_data \<Rightarrow> section_data" where
  "add_shape sh s = s\<lparr>shapes := shapes s @ [sh]\<rparr>"

fun remove_first :: "int \<Rightarrow> shape list \<Rightarrow> shape list" where
  "remove_first i [] = []"
| "remove_first i (sh # shs) = (if shape_id sh = i then shs else sh # remove_first i shs)"

definition remove_shape :: "int \<Rightarrow> section_data \<Rightarrow> section_data" where
  "remove_shape i s = s\<lparr>shapes := remove_first i (shapes s)\<rparr>"

definition set_mesh :: "ref option \<Rightarrow> section_data \<Rightarrow> section_data" where
  "set_mesh r s = s\<lparr>mesh := r\<rparr>"

definition set_fibers :: "fiber list \<Rightarrow> section_data \<Rightarrow> section_data" where
  "set_fibers fs s = s\<lparr>section_fibers := fs\<rparr>"

text \<open>
  The merge of \<open>OperationGenerateMesh.execute\<close>: the existing fibers, then the new mesh
  fibers whose id is not in the set of existing ids.
\<close>

fun merge_loop :: "int set \<Rightarrow> fiber list \<Rightarrow> fiber list \<Rightarrow> fiber list" where
  "merge_loop existing_fiber_ids merged_fibers [] = merged_fibers"
| "merge_loop existing_fiber_ids merged_fibers (f # fs) =
     merge_loop existing_fiber_ids
       (if fiber_id f \<notin> existing_fiber_ids then merged_fibers @ [f] else merged_fibers) fs"

definition merge_fibers :: "fiber list \<Rightarrow> fiber list \<Rightarrow> fiber list" where
  "merge_fibers existing_fibers new_mesh_fibers =
     merge_loop (fiber_id ` set existing_fibers) existing_fibers new_mesh_fibers"

text \<open>
  \<open>OperationGenerateMesh.execute\<close>. The last statement assigns to \<open>self.new_mesh.fibers\<close>
  outside the test of \<open>self.new_mesh\<close>, so with no new mesh it raises AttributeError
  after the section has been updated.
\<close>

definition execute_generate_mesh ::
  "shapely \<Rightarrow> generate_mesh_op \<Rightarrow> data_manager
     \<Rightarrow> py_error option \<times> generate_mesh_op \<times> data_manager" where
  "execute_generate_mesh L op dm =
     (case get_section_by_id (sections dm) (op_section_id op) of
        None \<Rightarrow> (None, op, dm)
      | Some section \<Rightarrow>
          (let op1 = op\<lparr>old_fibers := Some (section_fibers section)\<rparr>;
               dm1 = dm\<lparr>sections :=
                        update_section (op_section_id op) (set_mesh (new_mesh op)) (sections dm)\<rparr>;
               existing_fibers = section_fibers section
           in case new_mesh op of
                None \<Rightarrow>
                  (Some AttributeError, op1,
                   dm1\<lparr>sections :=
                         update_section (op_section_id op)
                           (set_fibers (merge_fibers existing_fibers [])) (sections dm1)\<rparr>)
              | Some r \<Rightarrow>
                  (case generate_fibers L (heap dm1 r) (get_active_shapes section) of
                     (Some err, m') \<Rightarrow> (Some err, op1, dm1\<lparr>heap := (heap dm1)(r := m')\<rparr>)
                   | (None, m') \<Rightarrow>
                       (let new_mesh_fibers = fibers m'
                        in (None, op1,
                            dm1\<lparr>sections :=
                                  update_section (op_section_id op)
                                    (set_fibers (merge_fibers existing_fibers new_mesh_fibers))
                                    (sections dm1),
                                heap := (heap dm1)(r := m'\<lparr>fibers := new_mesh_fibers\<rparr>)\<rparr>)))))"

text \<open>\<open>OperationGenerateMesh.undo\<close>.\<close>

definition undo_generate_mesh :: "generate_mesh_op \<Rightarrow> data_manager \<Rightarrow> data_manager" where
  "undo_generate_mesh op dm =
     (case get_section_by_id (sections dm) (op_section_id op) of
        None \<Rightarrow> dm
      | Some section \<Rightarrow>
          (let dm1 = dm\<lparr>sections :=
                        update_section (op_section_id op) (set_mesh (old_mesh op)) (sections dm)\<rparr>;
               restored =
                 (case old_fibers op of
                    Some fs \<Rightarrow> fs
                  | None \<Rightarrow> (case old_mesh op of Some r \<Rightarrow> fibers (heap dm1 r) | None \<Rightarrow> []));
               dm2 = dm1\<lparr>sections :=
                         update_section (op_section_id op) (set_fibers restored) (sections dm1)\<rparr>
           in case old_mesh op of
                None \<Rightarrow> dm2
              | Some r \<Rightarrow>
                  dm2\<lparr>heap := (heap dm2)
                        (r := (heap dm2 r)\<lparr>fibers :=
                                 (case old_fibers op of Some fs \<Rightarrow> fs | None \<Rightarrow> [])\<rparr>)\<rparr>))"

fun execute :: "shapely \<Rightarrow> operation \<Rightarrow> data_manager \<Rightarrow> py_error option \<times> operation \<times> data_manager" where
  "execute L (OperationAddShape sid sh) dm =
     (None, OperationAddShape sid sh, dm\<lparr>sections := update_section sid (add_shape sh) (sections dm)\<rparr>)"
| "execute L (OperationDeleteShape sid sh) dm =
     (None, OperationDeleteShape sid sh,
      dm\<lparr>sections := update_section sid (remove_shape (shape_id sh)) (sections dm)\<rparr>)"
| "execute L (OperationGenerateMesh op) dm =
     (case execute_generate_mesh L op dm of (err, op', dm') \<Rightarrow> (err, OperationGenerateMesh op', dm'))"

fun undo_operation :: "operation \<Rightarrow> data_manager \<Rightarrow> data_manager" where
  "undo_operation (OperationAddShape sid sh) dm =
     dm\<lparr>sections := update_section sid (remove_shape (shape_id sh)) (sections dm)\<rparr>"
| "undo_operation (OperationDeleteShape sid sh) dm =
     dm\<lparr>sections := update_section sid (add_shape sh) (sections dm)\<rparr>"
| "undo_operation (OperationGenerateMesh op) dm = undo_generate_mesh op dm"

text \<open>
  \<open>DataManager.generate_mesh\<close>, \<open>undo\<close> and \<open>redo\<close>. The stacks grow at the end. An
  exception in \<open>execute\<close> leaves the operation off the undo stack.
\<close>

definition dm_generate_mesh ::
  "shapely \<Rightarrow> data_manager \<Rightarrow> int \<Rightarrow> ref option \<Rightarrow> py_error option \<times> data_manager" where
  "dm_generate_mesh L dm sid new =
     (case get_section_by_id (sections dm) sid of
        None \<Rightarrow> (None, dm)
      | Some section \<Rightarrow>
          (case execute_generate_mesh L
                  \<lparr>op_section_id = sid, old_mesh = mesh section, new_mesh = new, old_fibers = None\<rparr> dm of
             (Some err, op', dm') \<Rightarrow> (Some err, dm')
           | (None, op', dm') \<Rightarrow>
               (None, dm'\<lparr>undo_stack := undo_stack dm' @ [OperationGenerateMesh op'],
                         redo_stack := []\<rparr>)))"

definition dm_undo :: "data_manager \<Rightarrow> data_manager" where
  "dm_undo dm =
     (if undo_stack dm = [] then dm
      else (let operation = last (undo_stack dm);
                dm1 = dm\<lparr>undo_stack := butlast (undo_stack dm)\<rparr>;
                dm2 = undo_operation operation dm1
            in dm2\<lparr>redo_stack := redo_stack dm2 @ [operation]\<rparr>))"

definition dm_redo :: "shapely \<Rightarrow> data_manager \<Rightarrow> py_error option \<times> data_manager" where
  "dm_redo L dm =
     (if redo_stack dm = [] then (None, dm)
      else (let operation = last (redo_stack dm);
                dm1 = dm\<lparr>redo_stack := butlast (redo_stack dm)\<rparr>
            in case execute L operation dm1 of
                 (Some err, op', dm2) \<Rightarrow> (Some err, dm2)
               | (None, op', dm2) \<Rightarrow> (None, dm2\<lparr>undo_stack := undo_stack dm2 @ [op']\<rparr>)))"

text \<open>What an observer reads from a section: its fibers and the mesh its reference names.\<close>

definition section_view :: "data_manager \<Rightarrow> int \<Rightarrow> (mesh option \<times> fiber list) option" where
  "section_view dm sid =
     map_option (\<lambda>s. (map_option (heap dm) (mesh s), section_fibers s))
       (get_section_by_id (sections dm) sid)"

section \<open>Shape constructors\<close>

text \<open>\<open>Shape.__init__\<close>, with the vertices and the geometry the subclass then assigns.\<close>

definition Shape :: "int \<Rightarrow> point list \<Rightarrow> geometry \<Rightarrow> shape" where
  "Shape i vs g =
     \<lparr>shape_id = i, shape_material_id = None, shape_active = True,
      shape_mesh_size = Some PyNone, shape_mesh_type = ''triangular'',
      shape_vertices = vs, shape_geometry = g\<rparr>"

text \<open>
  \<open>PolygonShape._create_geometry\<close>: the vertex list as the method leaves it and the
  geometry, or the error of the polygon constructor. The fallback for no vertices is the
  unit square, a ring that the constructor accepts.
\<close>

definition create_geometry :: "shapely \<Rightarrow> point list \<Rightarrow> py_error + (point list \<times> geometry)" where
  "create_geometry L vertices =
     (if vertices = [] then Inr (vertices, Polygon [(0, 0), (1, 0), (1, 1), (0, 1)])
      else (let vertices' =
                  (if hd vertices \<noteq> last vertices then vertices @ [hd vertices] else vertices)
            in case polygon_error L (butlast vertices') of
                 Some e \<Rightarrow> Inl e
               | None \<Rightarrow> Inr (vertices', Polygon (butlast vertices'))))"

text \<open>\<open>PolygonShape.__init__\<close>: an error in \<open>_create_geometry\<close> leaves no shape.\<close>

definition PolygonShape :: "shapely \<Rightarrow> int \<Rightarrow> point list \<Rightarrow> py_error + shape" where
  "PolygonShape L i vertices =
     (case create_geometry L vertices of
        Inl e \<Rightarrow> Inl e
      | Inr (vs, g) \<Rightarrow> Inr (Shape i vs g))"

section \<open>MeshGenerator\<close>

record mesh_generator =
  current_mesh_id :: int

text \<open>The first lines of both strategies: \<open>None\<close> and whatever \<^verbatim>\<open>float()\<close> rejects become 0.1.\<close>

definition coerce_mesh_size :: "py_value \<Rightarrow> real" where
  "coerce_mesh_size mesh_size =
     (let mesh_size1 = (if mesh_size = PyNone then PyNum (1 / 10) else mesh_size)
      in case mesh_size1 of PyNum x \<Rightarrow> x | PyNone \<Rightarrow> 1 / 10 | PyInvalid \<Rightarrow> 1 / 10)"

text \<open>\<^verbatim>\<open>getattr(shape, 'mesh_size', global_mesh_size)\<close>.\<close>

definition getattr_mesh_size :: "shape \<Rightarrow> py_value \<Rightarrow> py_value" where
  "getattr_mesh_size shape global_mesh_size =
     (case shape_mesh_size shape of None \<Rightarrow> global_mesh_size | Some v \<Rightarrow> v)"

subsection \<open>Triangular strategy\<close>

text \<open>
  The triangulation itself is done by the sectionproperties library. It is a parameter:
  given the shapes and the target size it yields the node coordinates and the node-id
  triples the method extracts, or \<open>None\<close> where the method returns \<^verbatim>\<open>None\<close> (no geometry,
  or an exception of the library, which the method catches).
\<close>

type_synonym triangulation = "shape list \<Rightarrow> real \<Rightarrow> (point list \<times> int list list) option"

definition generate_tri_mesh ::
  "triangulation \<Rightarrow> mesh_generator \<Rightarrow> shape list \<Rightarrow> py_value \<Rightarrow> mesh_generator \<times> mesh option" where
  "generate_tri_mesh T gen shps mesh_size =
     (let mesh_size' = coerce_mesh_size mesh_size
      in case T shps mesh_size' of
           None \<Rightarrow> (gen, None)
         | Some (vs, ts) \<Rightarrow>
             (gen\<lparr>current_mesh_id := current_mesh_id gen + 1\<rparr>,
              Some (foldl (\<lambda>m t. add_element m t 1)
                      (foldl (\<lambda>m (y, z). fst (add_node m y z)) (Mesh (current_mesh_id gen)) vs)
                      ts)))"

subsection \<open>Quadrilateral strategy\<close>

text \<open>
  The bounding-box loop, with the running minima and maxima starting at plus and minus
  infinity. Every shapely geometry has \<^verbatim>\<open>bounds\<close>, so the branch on \<^verbatim>\<open>vertices\<close> is
  never taken. NaN bounds, those of an empty geometry, leave the extremes as they are.
\<close>

type_synonym box_state = "shape list \<times> real \<times> real \<times> real \<times> real"

definition bounds_step :: "shapely \<Rightarrow> float_arith \<Rightarrow> box_state \<Rightarrow> shape \<Rightarrow> box_state" where
  "bounds_step L A st shape =
     (case st of (active_shapes, min_y, min_z, max_y, max_z) \<Rightarrow>
        if shape_active shape then
          (case bounds L (shape_geometry shape) of (b0, b1, b2, b3) \<Rightarrow>
             (active_shapes @ [shape], py_min A min_y b0, py_min A min_z b1,
              py_max A max_y b2, py_max A max_z b3))
        else st)"

text \<open>
  The coordinates of grid node \<open>(i, j)\<close> (row \<open>i\<close>, column \<open>j\<close>) as the node loop computes
  them: \<^verbatim>\<open>min_y + j * width / num_y\<close> and \<^verbatim>\<open>min_z + i * height / num_z\<close>, the integers
  converted to float, every operation one of the float arithmetic.
\<close>

definition grid_point ::
  "float_arith \<Rightarrow> real \<Rightarrow> real \<Rightarrow> real \<Rightarrow> real \<Rightarrow> nat \<Rightarrow> nat \<Rightarrow> nat \<Rightarrow> nat \<Rightarrow> point" where
  "grid_point A min_y min_z width height num_y num_z i j =
     (f_add A min_y (f_div A (f_mul A (f_of_int A (int j)) width) (f_of_int A (int num_y))),
      f_add A min_z (f_div A (f_mul A (f_of_int A (int i)) height) (f_of_int A (int num_z))))"

text \<open>The node loops: row \<open>i\<close> of the grid, then all rows.\<close>

definition grid_row ::
  "float_arith \<Rightarrow> real \<Rightarrow> real \<Rightarrow> real \<Rightarrow> real \<Rightarrow> nat \<Rightarrow> nat \<Rightarrow> nat \<Rightarrow> mesh
     \<Rightarrow> mesh \<times> int list" where
  "grid_row A min_y min_z width height num_y num_z i m =
     foldl (\<lambda>(m, row) j.
              case grid_point A min_y min_z width height num_y num_z i j of
                (y, z) \<Rightarrow>
                  (case add_node m y z of (m', node_id) \<Rightarrow> (m', row @ [node_id])))
       (m, []) [0..<num_y + 1]"

definition grid_nodes ::
  "float_arith \<Rightarrow> real \<Rightarrow> real \<Rightarrow> real \<Rightarrow> real \<Rightarrow> nat \<Rightarrow> nat \<Rightarrow> mesh
     \<Rightarrow> mesh \<times> int list list" where
  "grid_nodes A min_y min_z width height num_y num_z m =
     foldl (\<lambda>(m, node_grid) i.
              case grid_row A min_y min_z width height num_y num_z i m of
                (m', row) \<Rightarrow> (m', node_grid @ [row]))
       (m, []) [0..<num_z + 1]"

text \<open>A corner counts when some active shape contains or touches it.\<close>

definition point_inside :: "shapely \<Rightarrow> shape list \<Rightarrow> point \<Rightarrow> bool" where
  "point_inside L active_shapes p =
     list_ex (\<lambda>shape. contains L (shape_geometry shape) p \<or> touches L (shape_geometry shape) p)
       active_shapes"

definition inside_count :: "shapely \<Rightarrow> shape list \<Rightarrow> point list \<Rightarrow> nat" where
  "inside_count L active_shapes ps = length (filter (point_inside L active_shapes) ps)"

definition quad_cell ::
  "shapely \<Rightarrow> shape list \<Rightarrow> int list list \<Rightarrow> mesh \<Rightarrow> nat \<Rightarrow> nat \<Rightarrow> mesh" where
  "quad_cell L active_shapes node_grid m i j =
     (let n1 = node_grid ! i ! j;
          n2 = node_grid ! i ! (j + 1);
          n3 = node_grid ! (i + 1) ! (j + 1);
          n4 = node_grid ! (i + 1) ! j;
          point1 = nodes m ! nat n1;
          point2 = nodes m ! nat n2;
          point3 = nodes m ! nat n3;
          point4 = nodes m ! nat n4
      in if 3 \<le> inside_count L active_shapes [point1, point2, point3, point4]
         then add_element m [n1, n2, n3, n4] 1 else m)"

definition quad_elements ::
  "shapely \<Rightarrow> shape list \<Rightarrow> int list list \<Rightarrow> nat \<Rightarrow> nat \<Rightarrow> mesh \<Rightarrow> mesh" where
  "quad_elements L active_shapes node_grid num_y num_z m =
     foldl (\<lambda>m i. foldl (\<lambda>m j. quad_cell L active_shapes node_grid m i j) m [0..<num_y])
       m [0..<num_z]"

text \<open>
  \<open>_generate_quad_mesh\<close>. The mesh object is created, and the id counter advanced, before
  the bounding box is known. The method returns \<^verbatim>\<open>None\<close> when \<open>min_y\<close> is still infinite.
  Dividing by a mesh size of zero raises ZeroDivisionError, in the line of \<open>num_y\<close>; then
  each of the two \<^verbatim>\<open>int()\<close> may raise. Both counts are at least 2, so the divisions of
  the node loop do not raise.
\<close>

definition generate_quad_mesh ::
  "shapely \<Rightarrow> float_arith \<Rightarrow> mesh_generator \<Rightarrow> shape list \<Rightarrow> py_value
     \<Rightarrow> mesh_generator \<times> (py_error + mesh option)" where
  "generate_quad_mesh L A gen shps mesh_size =
     (let mesh_size' = coerce_mesh_size mesh_size
      in if shps = [] then (gen, Inr None)
         else
           (let m = Mesh (current_mesh_id gen);
                gen' = gen\<lparr>current_mesh_id := current_mesh_id gen + 1\<rparr>
            in case foldl (bounds_step L A)
                      ([], f_inf A, f_inf A, f_neg_inf A, f_neg_inf A) shps of
                 (active_shapes, min_y, min_z, max_y, max_z) \<Rightarrow>
                   if float_eq A min_y (f_inf A) then (gen', Inr None)
                   else
                     (let height = f_sub A max_z min_z;
                          width = f_sub A max_y min_y
                      in if f_value A mesh_size' = Fin 0 then (gen', Inl ZeroDivisionError)
                         else
                           (case py_int A (f_div A width mesh_size') of
                              Inl e \<Rightarrow> (gen', Inl e)
                            | Inr k_y \<Rightarrow>
                                (case py_int A (f_div A height mesh_size') of
                                   Inl e \<Rightarrow> (gen', Inl e)
                                 | Inr k_z \<Rightarrow>
                                     (let num_y = nat (max 2 k_y);
                                          num_z = nat (max 2 k_z)
                                      in case grid_nodes A min_y min_z width height
                                                num_y num_z m of
                                           (m1, node_grid) \<Rightarrow>
                                             (gen', Inr (Some (quad_elements L active_shapes
                                                             node_grid num_y num_z m1)))))))))"

subsection \<open>generate_mesh\<close>

text \<open>Copying the nodes of a shape's mesh into the merged mesh, filling \<open>node_mapping\<close>.\<close>

fun merge_nodes ::
  "mesh \<Rightarrow> (int \<rightharpoonup> int) \<Rightarrow> int \<Rightarrow> point list \<Rightarrow> mesh \<times> (int \<rightharpoonup> int)" where
  "merge_nodes merged_mesh node_mapping old_node_id [] = (merged_mesh, node_mapping)"
| "merge_nodes merged_mesh node_mapping old_node_id (p # ps) =
     (case add_node merged_mesh (fst p) (snd p) of
        (merged_mesh', new_node_id) \<Rightarrow>
          merge_nodes merged_mesh' (node_mapping(old_node_id \<mapsto> new_node_id))
            (old_node_id + 1) ps)"

text \<open>\<^verbatim>\<open>[node_mapping[old_id] for old_id in element]\<close>: a missing key raises KeyError.\<close>

fun map_element :: "(int \<rightharpoonup> int) \<Rightarrow> int list \<Rightarrow> py_error + int list" where
  "map_element node_mapping [] = Inr []"
| "map_element node_mapping (old_id # rest) =
     (case node_mapping old_id of
        None \<Rightarrow> Inl KeyError
      | Some new_id \<Rightarrow>
          (case map_element node_mapping rest of
             Inl e \<Rightarrow> Inl e
           | Inr ids \<Rightarrow> Inr (new_id # ids)))"

fun merge_elements ::
  "(int \<rightharpoonup> int) \<Rightarrow> int \<Rightarrow> mesh \<Rightarrow> int list list \<Rightarrow> py_error + mesh" where
  "merge_elements node_mapping material merged_mesh [] = Inr merged_mesh"
| "merge_elements node_mapping material merged_mesh (element # rest) =
     (case map_element node_mapping element of
        Inl e \<Rightarrow> Inl e
      | Inr mapped_element \<Rightarrow>
          merge_elements node_mapping material
            (add_element merged_mesh mapped_element material) rest)"

text \<open>\<^verbatim>\<open>shape.material_id or 1\<close>: \<open>None\<close> and 0 both give 1.\<close>

definition material_or_1 :: "int option \<Rightarrow> int" where
  "material_or_1 v = (case v of None \<Rightarrow> 1 | Some i \<Rightarrow> (if i = 0 then 1 else i))"

definition merge_shape_mesh :: "mesh \<Rightarrow> mesh \<Rightarrow> int \<Rightarrow> py_error + mesh" where
  "merge_shape_mesh merged_mesh shape_mesh material =
     (case merge_nodes merged_mesh Map.empty 0 (nodes shape_mesh) of
        (merged_mesh', node_mapping) \<Rightarrow>
          merge_elements node_mapping material merged_mesh' (elements shape_mesh))"

text \<open>The loop over the shapes, each meshed on its own by the strategy of its type.\<close>

fun shapes_loop ::
  "shapely \<Rightarrow> float_arith \<Rightarrow> triangulation \<Rightarrow> py_value \<Rightarrow> shape list \<Rightarrow> mesh_generator
     \<Rightarrow> mesh \<Rightarrow> mesh_generator \<times> (py_error + mesh)" where
  "shapes_loop L A T global_mesh_size [] gen merged_mesh = (gen, Inr merged_mesh)"
| "shapes_loop L A T global_mesh_size (shape # rest) gen merged_mesh =
     (if shape_active shape then
        (let mesh_type = shape_mesh_type shape;
             mesh_size = getattr_mesh_size shape global_mesh_size
         in case (if mesh_type = ''quadrilateral''
                  then generate_quad_mesh L A gen [shape] mesh_size
                  else (case generate_tri_mesh T gen [shape] mesh_size of
                          (gen', r) \<Rightarrow> (gen', Inr r))) of
              (gen', Inl e) \<Rightarrow> (gen', Inl e)
            | (gen', Inr None) \<Rightarrow> shapes_loop L A T global_mesh_size rest gen' merged_mesh
            | (gen', Inr (Some shape_mesh)) \<Rightarrow>
                (case merge_shape_mesh merged_mesh shape_mesh
                        (material_or_1 (shape_material_id shape)) of
                   Inl e \<Rightarrow> (gen', Inl e)
                 | Inr merged_mesh' \<Rightarrow> shapes_loop L A T global_mesh_size rest gen' merged_mesh'))
      else shapes_loop L A T global_mesh_size rest gen merged_mesh)"

definition generate_mesh ::
  "shapely \<Rightarrow> float_arith \<Rightarrow> triangulation \<Rightarrow> mesh_generator \<Rightarrow> shape list \<Rightarrow> py_value
     \<Rightarrow> mesh_generator \<times> (py_error + mesh option)" where
  "generate_mesh L A T gen shps global_mesh_size =
     (if shps = [] then (gen, Inr None)
      else (case shapes_loop L A T global_mesh_size shps
                   (gen\<lparr>current_mesh_id := current_mesh_id gen + 1\<rparr>)
                   (Mesh (current_mesh_id gen)) of
              (gen', Inl e) \<Rightarrow> (gen', Inl e)
            | (gen', Inr merged_mesh) \<Rightarrow> (gen', Inr (Some merged_mesh))))"


section \<open>Well-formed elements\<close>

text \<open>
  An element is well formed for a node list when each of its indices is a valid index
  and shapely accepts the polygon of its nodes.
\<close>

definition element_ok :: "shapely \<Rightarrow> point list \<Rightarrow> int list \<Rightarrow> bool" where
  "element_ok L ns e =
     (case node_coords ns e of
        Inl err \<Rightarrow> False
      | Inr cs \<Rightarrow> (case element_polygon L cs of Inl err \<Rightarrow> False | Inr ac \<Rightarrow> True))"

section \<open>A float arithmetic and a geometry library for running the model\<close>

text \<open>
  Arithmetic without rounding, for running the model on numbers with which the doubles
  compute exactly. A real below \<open>2 ^ 1024\<close> in magnitude carries the float of that value;
  \<open>2 ^ 1024\<close> and its negative carry the infinities, \<open>nan_carrier\<close> carries NaN.
\<close>

definition float_limit :: real where
  "float_limit = 2 ^ 1024"

definition nan_carrier :: real where
  "nan_carrier = float_limit + 1"

definition exact_value :: "real \<Rightarrow> fvalue" where
  "exact_value x =
     (if \<bar>x\<bar> < float_limit then Fin x
      else if x = nan_carrier then NaN
      else if 0 < x then PosInf else NegInf)"

definition exact_floats :: float_arith where
  "exact_floats =
     \<lparr>f_value = exact_value, f_inf = float_limit, f_neg_inf = - float_limit,
      f_of_int = real_of_int, f_add = (+), f_sub = (-), f_mul = (*), f_div = (/)\<rparr>"

text \<open>
  Shapely on convex polygons of positive area, their vertices listed in either
  direction: point tests by the sign of cross products, area and centroid by the shoelace
  formulas (for an element without area, the centroid of its outline). The constructor
  rejects a ring of one or two coordinates. It instantiates the parameter \<open>shapely\<close>
  wherever the model is run on concrete data.
\<close>

definition cross :: "point \<Rightarrow> point \<Rightarrow> point \<Rightarrow> real" where
  "cross a b p = (fst b - fst a) * (snd p - snd a) - (snd b - snd a) * (fst p - fst a)"

fun ring :: "point list \<Rightarrow> (point \<times> point) list" where
  "ring [] = []"
| "ring (v # vs) = zip (v # vs) (vs @ [v])"

fun convex_contains :: "geometry \<Rightarrow> point \<Rightarrow> bool" where
  "convex_contains (Polygon vs) p =
     (vs \<noteq> [] \<and>
      (list_all (\<lambda>(a, b). 0 < cross a b p) (ring vs) \<or>
       list_all (\<lambda>(a, b). cross a b p < 0) (ring vs)))"
| "convex_contains g p = False"

fun convex_touches :: "geometry \<Rightarrow> point \<Rightarrow> bool" where
  "convex_touches (Polygon vs) p =
     ((list_all (\<lambda>(a, b). 0 \<le> cross a b p) (ring vs) \<or>
       list_all (\<lambda>(a, b). cross a b p \<le> 0) (ring vs)) \<and>
      list_ex (\<lambda>(a, b). cross a b p = 0) (ring vs))"
| "convex_touches g p = False"

fun convex_bounds :: "geometry \<Rightarrow> real \<times> real \<times> real \<times> real" where
  "convex_bounds (Polygon (v # vs)) =
     (fold min (map fst vs) (fst v), fold min (map snd vs) (snd v),
      fold max (map fst vs) (fst v), fold max (map snd vs) (snd v))"
| "convex_bounds g = (nan_carrier, nan_carrier, nan_carrier, nan_carrier)"

definition convex_polygon_error :: "point list \<Rightarrow> py_error option" where
  "convex_polygon_error cs =
     (if length cs = 1 \<or> length cs = 2 then Some ValueError else None)"

definition segment_length :: "point \<times> point \<Rightarrow> real" where
  "segment_length = (\<lambda>(a, b). sqrt ((fst b - fst a)\<^sup>2 + (snd b - snd a)\<^sup>2))"

definition outline_centroid :: "point list \<Rightarrow> point" where
  "outline_centroid cs =
     (let total = sum_list (map segment_length (ring cs))
      in if total = 0 then hd cs
         else (sum_list (map (\<lambda>(a, b). segment_length (a, b) * (fst a + fst b) / 2) (ring cs))
                 / total,
               sum_list (map (\<lambda>(a, b). segment_length (a, b) * (snd a + snd b) / 2) (ring cs))
                 / total))"

definition shoelace :: "point list \<Rightarrow> py_error + (real \<times> point)" where
  "shoelace cs =
     (let ws = map (\<lambda>(a, b). fst a * snd b - fst b * snd a) (ring cs);
          a2 = sum_list ws;
          cy = sum_list (map (\<lambda>(a, b). (fst a + fst b) * (fst a * snd b - fst b * snd a)) (ring cs));
          cz = sum_list (map (\<lambda>(a, b). (snd a + snd b) * (fst a * snd b - fst b * snd a)) (ring cs))
      in if length cs < 3 then Inl ValueError
         else if a2 = 0 then Inr (0, outline_centroid cs)
         else Inr (\<bar>a2\<bar> / 2, (cy / (3 * a2), cz / (3 * a2))))"

definition convex_lib :: shapely where
  "convex_lib =
     \<lparr>contains = convex_contains, touches = convex_touches, bounds = convex_bounds,
      polygon_error = convex_polygon_error, element_polygon = shoelace\<rparr>"

text \<open>
  Two unit squares side by side, and two overlapping rectangles with materials 7 and 9,
  as \<open>PolygonShape\<close> builds them from their four corners.
\<close>

definition two_squares :: mesh where
  "two_squares =
     \<lparr>mesh_id = 2, nodes = [(0, 0), (1, 0), (1, 1), (0, 1), (2, 0), (2, 1)],
      elements = [[0, 1, 2, 3], [1, 4, 5, 2]], element_materials = [1, 1], fibers = []\<rparr>"

definition wide_rect :: shape where
  "wide_rect =
     (Shape 1 [(0, 0), (2, 0), (2, 1), (0, 1), (0, 0)] (Polygon [(0, 0), (2, 0), (2, 1), (0, 1)]))
       \<lparr>shape_material_id := Some 7\<rparr>"

definition right_rect :: shape where
  "right_rect =
     (Shape 2 [(1, 0), (2, 0), (2, 1), (1, 1), (1, 0)] (Polygon [(1, 0), (2, 0), (2, 1), (1, 1)]))
       \<lparr>shape_material_id := Some 9\<rparr>"

text \<open>
  A section that already has a mesh (one unit square, with its one fiber) and a manually
  placed fiber beside the mesh fiber; mesh \<open>two_squares\<close> waits at reference 2.
\<close>

definition old_square :: mesh where
  "old_square =
     \<lparr>mesh_id = 1, nodes = [(0, 0), (1, 0), (1, 1), (0, 1)], elements = [[0, 1, 2, 3]],
      element_materials = [1], fibers = [Fiber 1 (1 / 2) (1 / 2) 1 7]\<rparr>"

definition manual_fiber :: fiber where
  "manual_fiber = Fiber 2001 (1 / 4) (1 / 4) (1 / 100) 3"

definition dm0 :: data_manager where
  "dm0 =
     \<lparr>sections = [\<lparr>section_id = 1, shapes = [wide_rect, right_rect], mesh = Some 0,
                    section_fibers = [Fiber 1 (1 / 2) (1 / 2) 1 7, manual_fiber]\<rparr>],
      heap = (\<lambda>r. Mesh 0)(0 := old_square, 2 := two_squares),
      undo_stack = [], redo_stack = []\<rparr>"

text \<open>
  Two triangulation routines for running the model: one that returns a single node whose
  coordinates are the size it was asked for (so the size a strategy used can be read off
  the mesh), and one that always fails.
\<close>

definition echo_triangulation :: triangulation where
  "echo_triangulation shps target = Some ([(target, target)], [])"

definition failing_triangulation :: triangulation where
  "failing_triangulation shps target = None"

text \<open>A triangulation that returns one triangle on three nodes of its own.\<close>

definition one_triangle :: triangulation where
  "one_triangle shps target = Some ([(0, 0), (target, 0), (0, target)], [[0, 1, 2]])"

text \<open>
  A square with one corner cut off, meshed with quadrilaterals of size 1: of the two
  cells of the upper row one has two corners in the shape and the other three.
\<close>

definition cut_square :: shape where
  "cut_square =
     (Shape 3 [(0, 0), (2, 0), (2, 2), (3 / 2, 2), (0, 1), (0, 0)]
        (Polygon [(0, 0), (2, 0), (2, 2), (3 / 2, 2), (0, 1)]))
       \<lparr>shape_mesh_size := Some (PyNum 1), shape_mesh_type := ''quadrilateral''\<rparr>"

section \<open>The index invariant of a mesh\<close>

definition index_valid :: "mesh \<Rightarrow> bool" where
  "index_valid m =
     list_all (\<lambda>e. list_all (\<lambda>i. 0 \<le> i \<and> i < int (length (nodes m))) e) (elements m)"

text \<open>The node mapping of a merge, seen against the mesh it points into.\<close>

definition mapping_in_range :: "(int \<rightharpoonup> int) \<Rightarrow> mesh \<Rightarrow> bool" where
  "mapping_in_range f m \<longleftrightarrow> (\<forall>a b. f a = Some b \<longrightarrow> 0 \<le> b \<and> b < int (length (nodes m)))"

section \<open>The grid of the quadrilateral strategy, in closed form\<close>

text \<open>
  The four node ids of cell \<open>(i, j)\<close> in a grid numbered row by row, and their
  counterparts read from a node grid.
\<close>

definition cell_ids :: "nat \<Rightarrow> nat \<Rightarrow> nat \<Rightarrow> int list" where
  "cell_ids num_y i j =
     [int (i * (num_y + 1) + j), int (i * (num_y + 1) + (j + 1)),
      int ((i + 1) * (num_y + 1) + (j + 1)), int ((i + 1) * (num_y + 1) + j)]"

definition cell_of :: "int list list \<Rightarrow> nat \<Rightarrow> nat \<Rightarrow> int list" where
  "cell_of G i j = [G ! i ! j, G ! i ! (j + 1), G ! (i + 1) ! (j + 1), G ! (i + 1) ! j]"

definition cell_inside ::
  "shapely \<Rightarrow> shape list \<Rightarrow> int list list \<Rightarrow> point list \<Rightarrow> nat \<Rightarrow> nat \<Rightarrow> bool" where
  "cell_inside L act G N i j \<longleftrightarrow>
     3 \<le> inside_count L act (map (\<lambda>n. N ! nat n) (cell_of G i j))"

section \<open>Properties\<close>

subsection \<open>Sections and their updates\<close>

lemma get_update_section:
  "(\<And>s. section_id (f s) = section_id s) \<Longrightarrow>
   get_section_by_id (update_section sid f ss) sid' =
     (if sid' = sid then map_option f (get_section_by_id ss sid)
      else get_section_by_id ss sid')"
  by (induction ss) auto

lemma get_update_same:
  "(\<And>s. section_id (f s) = section_id s) \<Longrightarrow>
   get_section_by_id (update_section sid f ss) sid = map_option f (get_section_by_id ss sid)"
  by (simp add: get_update_section)

lemma set_mesh_id [simp]: "section_id (set_mesh r s) = section_id s"
  by (simp add: set_mesh_def)

lemma set_fibers_id [simp]: "section_id (set_fibers fs s) = section_id s"
  by (simp add: set_fibers_def)

lemma get_update_twice:
  "(\<And>s. section_id (f s) = section_id s) \<Longrightarrow> (\<And>s. section_id (g s) = section_id s) \<Longrightarrow>
   get_section_by_id (update_section sid f (update_section sid g ss)) sid =
     map_option (f \<circ> g) (get_section_by_id ss sid)"
  by (simp add: get_update_section option.map_comp)

subsection \<open>The fiber merge\<close>

lemma merge_loop_eq:
  "merge_loop ids merged fs = merged @ filter (\<lambda>f. fiber_id f \<notin> ids) fs"
  by (induction fs arbitrary: merged) auto

lemma merge_fibers_eq:
  "merge_fibers existing new =
     existing @ filter (\<lambda>f. fiber_id f \<notin> fiber_id ` set existing) new"
  by (simp add: merge_fibers_def merge_loop_eq)

subsection \<open>generate_fibers\<close>

lemma fibers_loop_ok:
  "list_all (element_ok L ns) es \<Longrightarrow>
   \<exists>fs'. fibers_loop L shs ns es fid fs = (None, fs @ fs') \<and> length fs' = length es \<and>
     (\<forall>k < length es. \<exists>cs a y z. node_coords ns (es ! k) = Inr cs \<and>
         element_polygon L cs = Inr (a, (y, z)) \<and>
         fs' ! k = Fiber (fid + int k) y z a (fiber_material L shs (y, z)))"
proof (induction es arbitrary: fid fs)
  case Nil
  then show ?case by simp
next
  case (Cons e es)
  from Cons.prems obtain cs a y z
    where e: "node_coords ns e = Inr cs" "element_polygon L cs = Inr (a, (y, z))"
    by (auto simp: element_ok_def split: sum.splits)
  let ?f = "Fiber fid y z a (fiber_material L shs (y, z))"
  from Cons.prems have "list_all (element_ok L ns) es" by simp
  from Cons.IH [OF this, of "fid + 1" "fs @ [?f]"]
  obtain fs' where fs':
    "fibers_loop L shs ns es (fid + 1) (fs @ [?f]) = (None, (fs @ [?f]) @ fs')"
    "length fs' = length es"
    "\<forall>k < length es. \<exists>cs a y z. node_coords ns (es ! k) = Inr cs \<and>
         element_polygon L cs = Inr (a, (y, z)) \<and>
         fs' ! k = Fiber (fid + 1 + int k) y z a (fiber_material L shs (y, z))"
    by blast
  have "fibers_loop L shs ns (e # es) fid fs = (None, fs @ (?f # fs'))"
    using e fs'(1) by simp
  moreover have "length (?f # fs') = length (e # es)" using fs'(2) by simp
  moreover have "\<exists>cs a y z. node_coords ns ((e # es) ! k) = Inr cs \<and>
         element_polygon L cs = Inr (a, (y, z)) \<and>
         (?f # fs') ! k = Fiber (fid + int k) y z a (fiber_material L shs (y, z))"
    if k: "k < length (e # es)" for k
  proof (cases k)
    case 0
    then show ?thesis using e by simp
  next
    case (Suc j)
    with k have "j < length es" by simp
    with fs'(3) obtain cs' a' y' z' where "node_coords ns (es ! j) = Inr cs'"
      "element_polygon L cs' = Inr (a', (y', z'))"
      "fs' ! j = Fiber (fid + 1 + int j) y' z' a' (fiber_material L shs (y', z'))"
      by blast
    moreover have "fid + 1 + int j = fid + int (Suc j)" by simp
    ultimately show ?thesis using Suc by (metis nth_Cons_Suc)
  qed
  ultimately show ?case by blast
qed

lemma fiber_material_find:
  "fiber_material L shs p =
     (case find (\<lambda>s. shape_active s \<and> contains L (shape_geometry s) p) shs of
        None \<Rightarrow> 1
      | Some s \<Rightarrow> (case shape_material_id s of Some m \<Rightarrow> m | None \<Rightarrow> 1))"
  by (induction shs) auto

lemma fibers_loop_material:
  "\<forall>f \<in> set fs. fiber_material_id f = fiber_material L shs (fiber_y f, fiber_z f) \<Longrightarrow>
   \<forall>f \<in> set (snd (fibers_loop L shs ns es fid fs)).
      fiber_material_id f = fiber_material L shs (fiber_y f, fiber_z f)"
proof (induction es arbitrary: fid fs)
  case Nil
  then show ?case by simp
next
  case (Cons e es)
  show ?case
  proof (cases "node_coords ns e")
    case (Inl err)
    then show ?thesis using Cons.prems by simp
  next
    case (Inr cs)
    show ?thesis
    proof (cases "element_polygon L cs")
      case (Inl err)
      then show ?thesis using Inr Cons.prems by simp
    next
      case (Inr ac)
      obtain a y z where ac: "ac = (a, (y, z))" by (cases ac) auto
      let ?f = "Fiber fid y z a (fiber_material L shs (y, z))"
      have "\<forall>f \<in> set (fs @ [?f]).
              fiber_material_id f = fiber_material L shs (fiber_y f, fiber_z f)"
        using Cons.prems by (simp add: Fiber_def)
      from Cons.IH [OF this, of "fid + 1"] show ?thesis
        using \<open>node_coords ns e = Inr cs\<close> Inr ac by simp
    qed
  qed
qed


lemma generate_fibers_result:
  "\<exists>err fs. generate_fibers L m shs = (err, m\<lparr>fibers := fs\<rparr>)"
  by (cases "fibers_loop L shs (nodes m) (elements m) 1 []") (auto simp: generate_fibers_def)

lemma generate_fibers_ignores_fibers:
  "generate_fibers L (m\<lparr>fibers := x\<rparr>) shs = generate_fibers L m shs"
  by (simp add: generate_fibers_def)

subsection \<open>execute and undo of the mesh operation\<close>

lemma execute_generate_mesh_ok:
  assumes "get_section_by_id (sections dm) (op_section_id op) = Some s"
    and "execute_generate_mesh L op dm = (None, op1, dm1)"
  shows "\<exists>r fs. new_mesh op = Some r \<and>
           generate_fibers L (heap dm r) (get_active_shapes s) = (None, (heap dm r)\<lparr>fibers := fs\<rparr>) \<and>
           op1 = op\<lparr>old_fibers := Some (section_fibers s)\<rparr> \<and>
           heap dm1 = (heap dm)(r := (heap dm r)\<lparr>fibers := fs\<rparr>) \<and>
           undo_stack dm1 = undo_stack dm \<and> redo_stack dm1 = redo_stack dm \<and>
           get_section_by_id (sections dm1) (op_section_id op) =
             Some (s\<lparr>mesh := Some r, section_fibers := merge_fibers (section_fibers s) fs\<rparr>)"
proof -
  from assms obtain r where r: "new_mesh op = Some r"
    by (cases "new_mesh op") (auto simp: execute_generate_mesh_def Let_def)
  obtain err fs where g: "generate_fibers L (heap dm r) (get_active_shapes s) = (err, (heap dm r)\<lparr>fibers := fs\<rparr>)"
    using generate_fibers_result by blast
  with assms r have "err = None"
    by (cases err) (auto simp: execute_generate_mesh_def Let_def)
  with assms r g show ?thesis
    by (auto simp: execute_generate_mesh_def Let_def get_update_twice set_mesh_def set_fibers_def)
qed

lemma execute_generate_mesh_run:
  assumes "get_section_by_id (sections dm) (op_section_id op) = Some s"
    and "new_mesh op = Some r"
    and "generate_fibers L (heap dm r) (get_active_shapes s) = (None, (heap dm r)\<lparr>fibers := fs\<rparr>)"
  shows "\<exists>dm1. execute_generate_mesh L op dm = (None, op\<lparr>old_fibers := Some (section_fibers s)\<rparr>, dm1) \<and>
           heap dm1 = (heap dm)(r := (heap dm r)\<lparr>fibers := fs\<rparr>) \<and>
           undo_stack dm1 = undo_stack dm \<and> redo_stack dm1 = redo_stack dm \<and>
           get_section_by_id (sections dm1) (op_section_id op) =
             Some (s\<lparr>mesh := Some r, section_fibers := merge_fibers (section_fibers s) fs\<rparr>)"
  using assms
  by (auto simp: execute_generate_mesh_def Let_def get_update_twice set_mesh_def set_fibers_def)

lemma undo_generate_mesh_run:
  assumes "get_section_by_id (sections dm) (op_section_id op) = Some s"
  shows "get_section_by_id (sections (undo_generate_mesh op dm)) (op_section_id op) =
           Some (s\<lparr>mesh := old_mesh op,
                   section_fibers := (case old_fibers op of Some fs \<Rightarrow> fs
                      | None \<Rightarrow> (case old_mesh op of Some r \<Rightarrow> fibers (heap dm r) | None \<Rightarrow> []))\<rparr>) \<and>
         heap (undo_generate_mesh op dm) =
           (case old_mesh op of None \<Rightarrow> heap dm
            | Some r \<Rightarrow> (heap dm)(r := (heap dm r)\<lparr>fibers :=
                  (case old_fibers op of Some fs \<Rightarrow> fs | None \<Rightarrow> [])\<rparr>)) \<and>
         undo_stack (undo_generate_mesh op dm) = undo_stack dm \<and>
         redo_stack (undo_generate_mesh op dm) = redo_stack dm"
  using assms
  by (auto simp: undo_generate_mesh_def Let_def get_update_twice set_mesh_def set_fibers_def
      split: option.splits)


subsection \<open>Running the model on the example data\<close>

lemmas example_defs =
  two_squares_def wide_rect_def right_rect_def Shape_def
  convex_lib_def shoelace_def cross_def Fiber_def old_square_def manual_fiber_def dm0_def
  Mesh_def list_get_def

lemma two_squares_fibers:
  "generate_fibers convex_lib two_squares [wide_rect, right_rect] =
     (None, two_squares\<lparr>fibers := [Fiber 1 (1 / 2) (1 / 2) 1 7, Fiber 2 (3 / 2) (1 / 2) 1 7]\<rparr>)"
  by (simp add: generate_fibers_def example_defs)

lemma dm0_section:
  "get_section_by_id (sections dm0) 1 =
     Some \<lparr>section_id = 1, shapes = [wide_rect, right_rect], mesh = Some 0,
            section_fibers = [Fiber 1 (1 / 2) (1 / 2) 1 7, manual_fiber]\<rparr>"
  by (simp add: dm0_def)

lemma example_active:
  "get_active_shapes \<lparr>section_id = 1, shapes = [wide_rect, right_rect], mesh = Some 0,
      section_fibers = fs\<rparr> = [wide_rect, right_rect]"
  by (simp add: get_active_shapes_def wide_rect_def right_rect_def Shape_def)

lemma dm0_generate:
  "dm_generate_mesh convex_lib dm0 1 (Some 2) =
     (None,
      \<lparr>sections = [\<lparr>section_id = 1, shapes = [wide_rect, right_rect], mesh = Some 2,
                     section_fibers = [Fiber 1 (1 / 2) (1 / 2) 1 7, manual_fiber,
                                       Fiber 2 (3 / 2) (1 / 2) 1 7]\<rparr>],
       heap = (heap dm0)(2 := two_squares\<lparr>fibers :=
                 [Fiber 1 (1 / 2) (1 / 2) 1 7, Fiber 2 (3 / 2) (1 / 2) 1 7]\<rparr>),
       undo_stack = [OperationGenerateMesh
                       \<lparr>op_section_id = 1, old_mesh = Some 0, new_mesh = Some 2,
                        old_fibers = Some [Fiber 1 (1 / 2) (1 / 2) 1 7, manual_fiber]\<rparr>],
       redo_stack = []\<rparr>)"
proof -
  have hp: "heap dm0 2 = two_squares" by (simp add: dm0_def)
  have m: "merge_fibers [Fiber 1 (1 / 2) (1 / 2) 1 7, manual_fiber]
             [Fiber 1 (1 / 2) (1 / 2) 1 7, Fiber 2 (3 / 2) (1 / 2) 1 7] =
           [Fiber 1 (1 / 2) (1 / 2) 1 7, manual_fiber, Fiber 2 (3 / 2) (1 / 2) 1 7]"
    by (simp add: merge_fibers_eq Fiber_def manual_fiber_def)
  show ?thesis
    by (simp add: dm_generate_mesh_def execute_generate_mesh_def Let_def dm0_section
        example_active hp two_squares_fibers m)
      (simp add: dm0_def set_mesh_def set_fibers_def)
qed

subsection \<open>generate_mesh when no shape yields a mesh\<close>

lemma shapes_loop_nothing_meshed:
  "\<forall>s \<in> set shs. \<not> shape_active s \<or>
      (shape_mesh_type s \<noteq> ''quadrilateral'' \<and>
       T [s] (coerce_mesh_size (getattr_mesh_size s g)) = None) \<Longrightarrow>
   shapes_loop L A T g shs gen merged = (gen, Inr merged)"
  by (induction shs arbitrary: gen merged) (auto simp: generate_tri_mesh_def Let_def)

lemma generate_mesh_not_null:
  "shs \<noteq> [] \<Longrightarrow> snd (generate_mesh L A T gen shs g) \<noteq> Inr None"
  by (auto simp: generate_mesh_def split: prod.splits sum.splits)

subsection \<open>Merging a shape's mesh keeps every index valid\<close>

lemma merge_nodes_inv:
  "merge_nodes mm f k ps = (mm', f') \<Longrightarrow> mapping_in_range f mm \<Longrightarrow>
   mapping_in_range f' mm' \<and> elements mm' = elements mm \<and>
   length (nodes mm) \<le> length (nodes mm')"
proof (induction ps arbitrary: mm f k)
  case Nil
  then show ?case by simp
next
  case (Cons p ps)
  let ?m1 = "mm\<lparr>nodes := nodes mm @ [(fst p, snd p)]\<rparr>"
  let ?f1 = "f(k \<mapsto> int (length (nodes mm)))"
  from Cons.prems(1) have step: "merge_nodes ?m1 ?f1 (k + 1) ps = (mm', f')"
    by (simp add: add_node_def Let_def)
  have "mapping_in_range ?f1 ?m1"
    using Cons.prems(2) by (fastforce simp: mapping_in_range_def)
  from Cons.IH [OF step this] show ?case by simp
qed

lemma map_element_range:
  "map_element f e = Inr e' \<Longrightarrow> \<forall>i \<in> set e'. \<exists>a. f a = Some i"
  by (induction e arbitrary: e') (auto split: option.splits sum.splits)

lemma index_valid_add_element:
  "index_valid m \<Longrightarrow> \<forall>i \<in> set e. 0 \<le> i \<and> i < int (length (nodes m)) \<Longrightarrow>
   index_valid (add_element m e mat)"
  by (simp add: index_valid_def add_element_def list_all_iff)

lemma merge_elements_inv:
  "merge_elements f mat mm es = Inr mm' \<Longrightarrow> index_valid mm \<Longrightarrow> mapping_in_range f mm \<Longrightarrow>
   index_valid mm'"
proof (induction es arbitrary: mm)
  case Nil
  then show ?case by simp
next
  case (Cons e es)
  from Cons.prems(1) obtain e' where e': "map_element f e = Inr e'"
    and step: "merge_elements f mat (add_element mm e' mat) es = Inr mm'"
    by (auto split: sum.splits)
  from map_element_range [OF e'] Cons.prems(3)
  have "\<forall>i \<in> set e'. 0 \<le> i \<and> i < int (length (nodes mm))"
    by (auto simp: mapping_in_range_def)
  with Cons.prems(2) have v: "index_valid (add_element mm e' mat)"
    by (rule index_valid_add_element)
  have "mapping_in_range f (add_element mm e' mat)"
    using Cons.prems(3) by (simp add: mapping_in_range_def add_element_def)
  from Cons.IH [OF step v this] show ?case .
qed

lemma index_valid_more_nodes:
  "index_valid m \<Longrightarrow> elements m' = elements m \<Longrightarrow> length (nodes m) \<le> length (nodes m') \<Longrightarrow>
   index_valid m'"
  by (fastforce simp: index_valid_def list_all_iff)

lemma merge_shape_mesh_valid:
  assumes "merge_shape_mesh merged shape_mesh mat = Inr merged'" and "index_valid merged"
  shows "index_valid merged'"
proof -
  obtain mm f where n: "merge_nodes merged Map.empty 0 (nodes shape_mesh) = (mm, f)"
    by (cases "merge_nodes merged Map.empty 0 (nodes shape_mesh)")
  with assms(1) have e: "merge_elements f mat mm (elements shape_mesh) = Inr merged'"
    by (simp add: merge_shape_mesh_def)
  have "mapping_in_range Map.empty merged" by (simp add: mapping_in_range_def)
  from merge_nodes_inv [OF n this]
  have *: "mapping_in_range f mm" "elements mm = elements merged"
    "length (nodes merged) \<le> length (nodes mm)" by simp_all
  from index_valid_more_nodes [OF assms(2) *(2) *(3)] have "index_valid mm" .
  from merge_elements_inv [OF e this *(1)] show ?thesis .
qed

lemma shapes_loop_valid:
  "shapes_loop L A T g shs gen merged = (gen', Inr m) \<Longrightarrow> index_valid merged \<Longrightarrow> index_valid m"
proof (induction shs arbitrary: gen merged)
  case Nil
  then show ?case by simp
next
  case (Cons s shs)
  show ?case
  proof (cases "shape_active s")
    case False
    with Cons show ?thesis by simp
  next
    case True
    obtain gen1 r where r:
      "(if shape_mesh_type s = ''quadrilateral''
        then generate_quad_mesh L A gen [s] (getattr_mesh_size s g)
        else (case generate_tri_mesh T gen [s] (getattr_mesh_size s g) of
                (gen', r) \<Rightarrow> (gen', Inr r))) = (gen1, r)"
      by (cases "(if shape_mesh_type s = ''quadrilateral''
        then generate_quad_mesh L A gen [s] (getattr_mesh_size s g)
        else (case generate_tri_mesh T gen [s] (getattr_mesh_size s g) of
                (gen', r) \<Rightarrow> (gen', Inr r)))")
    show ?thesis
    proof (cases r)
      case (Inl e)
      with Cons.prems True r show ?thesis by (simp add: Let_def)
    next
      case (Inr mo)
      show ?thesis
      proof (cases mo)
        case None
        with Cons.prems True r Inr have "shapes_loop L A T g shs gen1 merged = (gen', Inr m)"
          by (simp add: Let_def)
        from Cons.IH [OF this Cons.prems(2)] show ?thesis .
      next
        case (Some shape_mesh)
        show ?thesis
        proof (cases "merge_shape_mesh merged shape_mesh (material_or_1 (shape_material_id s))")
          case (Inl e)
          with Cons.prems True r Inr Some show ?thesis by (simp add: Let_def)
        next
          case (Inr merged')
          with Cons.prems True r \<open>r = Inr mo\<close> Some
          have "shapes_loop L A T g shs gen1 merged' = (gen', Inr m)"
            by (simp add: Let_def)
          moreover have "index_valid merged'"
            using merge_shape_mesh_valid [OF Inr Cons.prems(2)] .
          ultimately show ?thesis by (rule Cons.IH)
        qed
      qed
    qed
  qed
qed

subsection \<open>Float comparisons and int()\<close>

lemma max_2_towards_zero: "max 2 (towards_zero x) = max 2 \<lfloor>x\<rfloor>"
proof (cases "0 \<le> x")
  case True
  then show ?thesis by (simp add: towards_zero_def)
next
  case False
  then have "x < 0" by simp
  then have "\<lceil>x\<rceil> \<le> 0" "\<lfloor>x\<rfloor> \<le> 0" by (simp_all add: ceiling_le_iff floor_le_iff)
  with False show ?thesis by (simp add: towards_zero_def)
qed

lemma py_int_finite: "f_value A x = Fin r \<Longrightarrow> py_int A x = Inr (towards_zero r)"
  by (simp add: py_int_def)

lemma py_min_from_inf:
  "f_value A (f_inf A) = PosInf \<Longrightarrow> f_value A b = Fin r \<Longrightarrow> py_min A (f_inf A) b = b"
  by (simp add: py_min_def float_less_def)

lemma py_max_from_neg_inf:
  "f_value A (f_neg_inf A) = NegInf \<Longrightarrow> f_value A b = Fin r \<Longrightarrow>
   py_max A (f_neg_inf A) b = b"
  by (simp add: py_max_def float_less_def)

lemma finite_not_inf:
  "f_value A (f_inf A) = PosInf \<Longrightarrow> f_value A b = Fin r \<Longrightarrow> \<not> float_eq A b (f_inf A)"
  by (simp add: float_eq_def)

subsection \<open>The exact arithmetic\<close>

lemma float_limit_large: "1000000 < float_limit"
proof -
  have "(1000000 :: real) < 2 ^ 20" by simp
  also have "(2 :: real) ^ 20 \<le> 2 ^ 1024" by (rule power_increasing) simp_all
  finally show ?thesis by (simp add: float_limit_def)
qed

lemma exact_value_small: "\<bar>x\<bar> \<le> 1000000 \<Longrightarrow> f_value exact_floats x = Fin x"
  using float_limit_large by (simp add: exact_floats_def exact_value_def)

lemma exact_value_inf:
  "f_value exact_floats (f_inf exact_floats) = PosInf"
  "f_value exact_floats (f_neg_inf exact_floats) = NegInf"
  using float_limit_large by (simp_all add: exact_floats_def exact_value_def nan_carrier_def)

lemma exact_value_nan: "f_value exact_floats nan_carrier = NaN"
  using float_limit_large by (simp add: exact_floats_def exact_value_def nan_carrier_def)

lemma exact_ops [simp]:
  "f_add exact_floats a b = a + b" "f_sub exact_floats a b = a - b"
  "f_mul exact_floats a b = a * b" "f_div exact_floats a b = a / b"
  "f_of_int exact_floats k = real_of_int k"
  by (simp_all add: exact_floats_def)

subsection \<open>The node loops of the quadrilateral strategy\<close>

lemma length_concat_rows:
  "length (concat (map (\<lambda>i. map (f i) [0..<n]) [0..<k])) = k * n"
  by (induction k) simp_all

lemma nth_concat_rows:
  "i < k \<Longrightarrow> j < n \<Longrightarrow> concat (map (\<lambda>i. map (f i) [0..<n]) [0..<k]) ! (i * n + j) = f i j"
proof (induction k)
  case 0
  then show ?case by simp
next
  case (Suc k)
  show ?case
  proof (cases "i < k")
    case True
    then have "Suc i * n \<le> k * n" by (intro mult_le_mono1) simp
    with Suc.prems(2) have "i * n + j < k * n" by simp
    with Suc.IH [OF True Suc.prems(2)] show ?thesis
      by (simp add: nth_append length_concat_rows)
  next
    case False
    with Suc.prems(1) have "i = k" by simp
    with Suc.prems(2) show ?thesis by (simp add: nth_append length_concat_rows)
  qed
qed

lemma grid_row_upto:
  "foldl (\<lambda>(m, row) j.
            case grid_point A y0 z0 w h ny nz i j of
              (y, z) \<Rightarrow> (case add_node m y z of (m', node_id) \<Rightarrow> (m', row @ [node_id])))
     (m, row0) [0..<k] =
   (m\<lparr>nodes := nodes m @ map (grid_point A y0 z0 w h ny nz i) [0..<k]\<rparr>,
    row0 @ map (\<lambda>j. int (length (nodes m) + j)) [0..<k])"
  by (induction k) (simp_all add: add_node_def Let_def case_prod_unfold)

lemma grid_row_eq:
  "grid_row A y0 z0 w h ny nz i m =
     (m\<lparr>nodes := nodes m @ map (grid_point A y0 z0 w h ny nz i) [0..<ny + 1]\<rparr>,
      map (\<lambda>j. int (length (nodes m) + j)) [0..<ny + 1])"
  unfolding grid_row_def by (simp only: grid_row_upto append_Nil)

lemma grid_nodes_upto:
  "foldl (\<lambda>(m, node_grid) i.
            case grid_row A y0 z0 w h ny nz i m of (m', row) \<Rightarrow> (m', node_grid @ [row]))
     (m, g0) [0..<k] =
   (m\<lparr>nodes := nodes m @
          concat (map (\<lambda>i. map (grid_point A y0 z0 w h ny nz i) [0..<ny + 1]) [0..<k])\<rparr>,
    g0 @ map (\<lambda>i. map (\<lambda>j. int (length (nodes m) + i * (ny + 1) + j)) [0..<ny + 1]) [0..<k])"
proof -
  define F where "F = (\<lambda>(m, node_grid) i.
            case grid_row A y0 z0 w h ny nz i m of (m', row) \<Rightarrow> (m', node_grid @ [row :: int list]))"
  define rows where "rows = (\<lambda>k. concat (map (\<lambda>i. map (grid_point A y0 z0 w h ny nz i) [0..<ny + 1]) [0..<k]))"
  define ids where "ids = (\<lambda>i. map (\<lambda>j. int (length (nodes m) + i * (ny + 1) + j)) [0..<ny + 1])"
  have len: "length (rows k) = k * (ny + 1)" for k
    unfolding rows_def by (rule length_concat_rows)
  have rows_Suc: "rows (Suc k) = rows k @ map (grid_point A y0 z0 w h ny nz k) [0..<ny + 1]" for k
    unfolding rows_def by simp
  have step: "F (m\<lparr>nodes := nodes m @ rows k\<rparr>, g) k =
      (m\<lparr>nodes := nodes m @ rows (Suc k)\<rparr>, g @ [ids k])" for k g
    unfolding F_def ids_def by (simp add: grid_row_eq len rows_Suc add.assoc)
  have "foldl F (m, g0) [0..<k] = (m\<lparr>nodes := nodes m @ rows k\<rparr>, g0 @ map ids [0..<k])"
  proof (induction k)
    case 0
    then show ?case by (simp add: rows_def)
  next
    case (Suc k)
    then show ?case by (simp add: step)
  qed
  then show ?thesis unfolding F_def rows_def ids_def .
qed

lemma grid_nodes_eq:
  "grid_nodes A y0 z0 w h ny nz m =
     (m\<lparr>nodes := nodes m @
            concat (map (\<lambda>i. map (grid_point A y0 z0 w h ny nz i) [0..<ny + 1]) [0..<nz + 1])\<rparr>,
      map (\<lambda>i. map (\<lambda>j. int (length (nodes m) + i * (ny + 1) + j)) [0..<ny + 1]) [0..<nz + 1])"
  unfolding grid_nodes_def by (simp only: grid_nodes_upto append_Nil)

subsection \<open>The element loops of the quadrilateral strategy\<close>

lemma quad_cell_eq:
  "quad_cell L act G m i j =
     (if cell_inside L act G (nodes m) i j then add_element m (cell_of G i j) 1 else m)"
  by (simp add: quad_cell_def cell_inside_def cell_of_def Let_def)

lemma quad_row_upto:
  "nodes (foldl (\<lambda>m j. quad_cell L act G m i j) m [0..<k]) = nodes m \<and>
   elements (foldl (\<lambda>m j. quad_cell L act G m i j) m [0..<k]) =
     elements m @ map (cell_of G i) (filter (cell_inside L act G (nodes m) i) [0..<k])"
  by (induction k) (simp_all add: quad_cell_eq add_element_def)

lemma quad_elements_upto:
  "nodes (foldl (\<lambda>m i. foldl (\<lambda>m j. quad_cell L act G m i j) m [0..<ny]) m [0..<k]) = nodes m \<and>
   elements (foldl (\<lambda>m i. foldl (\<lambda>m j. quad_cell L act G m i j) m [0..<ny]) m [0..<k]) =
     elements m @
     concat (map (\<lambda>i. map (cell_of G i) (filter (cell_inside L act G (nodes m) i) [0..<ny]))
               [0..<k])"
  by (induction k) (simp_all add: quad_row_upto)

lemma quad_elements_eq:
  "nodes (quad_elements L act G ny nz m) = nodes m \<and>
   elements (quad_elements L act G ny nz m) =
     elements m @
     concat (map (\<lambda>i. map (cell_of G i) (filter (cell_inside L act G (nodes m) i) [0..<ny]))
               [0..<nz])"
  unfolding quad_elements_def by (rule quad_elements_upto)

subsection \<open>The quadrilateral mesh of one shape\<close>

lemma cell_ids_inj:
  "cell_ids n i j = cell_ids n i' j' \<Longrightarrow> j \<le> n \<Longrightarrow> j' \<le> n \<Longrightarrow> i = i' \<and> j = j'"
proof -
  assume a: "cell_ids n i j = cell_ids n i' j'" and j: "j \<le> n" "j' \<le> n"
  then have "int (i * (n + 1) + j) = int (i' * (n + 1) + j')"
    by (simp add: cell_ids_def del: of_nat_add of_nat_mult)
  then have e: "i * (n + 1) + j = i' * (n + 1) + j'" by (simp only: of_nat_eq_iff)
  have d: "(a * m + r) div m = a" if "r < m" for a m r :: nat
    using that by simp
  from j have "(i * (n + 1) + j) div (n + 1) = i" "(i' * (n + 1) + j') div (n + 1) = i'"
    by (intro d; simp)+
  with e have "i = i'" by metis
  with e show ?thesis by simp
qed

lemma generate_quad_mesh_single:
  assumes act: "shape_active s"
    and b: "bounds L (shape_geometry s) = (y0, z0, y1, z1)"
    and inf: "f_value A (f_inf A) = PosInf" "f_value A (f_neg_inf A) = NegInf"
    and fin: "f_value A y0 = Fin r0" "f_value A z0 = Fin r1"
      "f_value A y1 = Fin r2" "f_value A z1 = Fin r3"
    and c: "f_value A (coerce_mesh_size ms) \<noteq> Fin 0"
    and qy: "f_value A (f_div A (f_sub A y1 y0) (coerce_mesh_size ms)) = Fin q_y"
    and qz: "f_value A (f_div A (f_sub A z1 z0) (coerce_mesh_size ms)) = Fin q_z"
    and ny: "ny = nat (max 2 \<lfloor>q_y\<rfloor>)"
    and nz: "nz = nat (max 2 \<lfloor>q_z\<rfloor>)"
  shows "\<exists>m. generate_quad_mesh L A gen [s] ms =
           (gen\<lparr>current_mesh_id := current_mesh_id gen + 1\<rparr>, Inr (Some m)) \<and>
         nodes m =
           concat (map (\<lambda>i. map (grid_point A y0 z0 (f_sub A y1 y0) (f_sub A z1 z0) ny nz i)
                               [0..<ny + 1])
                     [0..<nz + 1]) \<and>
         elements m =
           concat (map (\<lambda>i. map (cell_ids ny i)
                     (filter (\<lambda>j. 3 \<le> length (filter
                          (\<lambda>p. contains L (shape_geometry s) p \<or> touches L (shape_geometry s) p)
                          [grid_point A y0 z0 (f_sub A y1 y0) (f_sub A z1 z0) ny nz i j,
                           grid_point A y0 z0 (f_sub A y1 y0) (f_sub A z1 z0) ny nz i (j + 1),
                           grid_point A y0 z0 (f_sub A y1 y0) (f_sub A z1 z0) ny nz (i + 1) (j + 1),
                           grid_point A y0 z0 (f_sub A y1 y0) (f_sub A z1 z0) ny nz (i + 1) j]))
                        [0..<ny]))
                     [0..<nz])"
proof -
  let ?gp = "grid_point A y0 z0 (f_sub A y1 y0) (f_sub A z1 z0) ny nz"
  define N where "N = concat (map (\<lambda>i. map (?gp i) [0..<ny + 1]) [0..<nz + 1])"
  define G where "G = map (\<lambda>i. map (\<lambda>j. int (i * (ny + 1) + j)) [0..<ny + 1]) [0..<nz + 1]"
  let ?m0 = "Mesh (current_mesh_id gen)"
  let ?m1 = "?m0\<lparr>nodes := N\<rparr>"
  let ?in = "\<lambda>p. contains L (shape_geometry s) p \<or> touches L (shape_geometry s) p"
  define P where "P = (\<lambda>i j. 3 \<le> length (filter ?in
      [?gp i j, ?gp i (j + 1), ?gp (i + 1) (j + 1), ?gp (i + 1) j]))"
  have box: "foldl (bounds_step L A) ([], f_inf A, f_inf A, f_neg_inf A, f_neg_inf A) [s] =
      ([s], y0, z0, y1, z1)"
    using act b inf fin
    by (simp add: bounds_step_def py_min_from_inf py_max_from_neg_inf)
  have noinf: "\<not> float_eq A y0 (f_inf A)"
    using inf(1) fin(1) by (rule finite_not_inf)
  have ky: "py_int A (f_div A (f_sub A y1 y0) (coerce_mesh_size ms)) = Inr (towards_zero q_y)"
    using qy by (rule py_int_finite)
  have kz: "py_int A (f_div A (f_sub A z1 z0) (coerce_mesh_size ms)) = Inr (towards_zero q_z)"
    using qz by (rule py_int_finite)
  have ny': "nat (max 2 (towards_zero q_y)) = ny" by (simp only: ny max_2_towards_zero)
  have nz': "nat (max 2 (towards_zero q_z)) = nz" by (simp only: nz max_2_towards_zero)
  have grid: "grid_nodes A y0 z0 (f_sub A y1 y0) (f_sub A z1 z0) ny nz ?m0 = (?m1, G)"
    unfolding N_def G_def by (simp add: grid_nodes_eq Mesh_def)
  have run: "generate_quad_mesh L A gen [s] ms =
      (gen\<lparr>current_mesh_id := current_mesh_id gen + 1\<rparr>,
       Inr (Some (quad_elements L [s] G ny nz ?m1)))"
    unfolding generate_quad_mesh_def Let_def box
    using c noinf by (simp add: ky kz ny' nz' grid)
  have G: "G ! i ! j = int (i * (ny + 1) + j)" if "i \<le> nz" "j \<le> ny" for i j
    using that unfolding G_def by (simp del: upt_Suc)
  have N: "N ! (i * (ny + 1) + j) = ?gp i j" if "i \<le> nz" "j \<le> ny" for i j
    using that unfolding N_def by (intro nth_concat_rows) simp_all
  have cell: "cell_of G i j = cell_ids ny i j" if "i < nz" "j < ny" for i j
  proof -
    have "G ! i ! j = int (i * (ny + 1) + j)" "G ! i ! (j + 1) = int (i * (ny + 1) + (j + 1))"
      "G ! (i + 1) ! (j + 1) = int ((i + 1) * (ny + 1) + (j + 1))"
      "G ! (i + 1) ! j = int ((i + 1) * (ny + 1) + j)"
      using that by (intro G; simp)+
    then show ?thesis by (simp only: cell_of_def cell_ids_def)
  qed
  have inside: "cell_inside L [s] G N i j \<longleftrightarrow> P i j" if "i < nz" "j < ny" for i j
  proof -
    have "N ! (i * (ny + 1) + j) = ?gp i j" "N ! (i * (ny + 1) + (j + 1)) = ?gp i (j + 1)"
      "N ! ((i + 1) * (ny + 1) + (j + 1)) = ?gp (i + 1) (j + 1)"
      "N ! ((i + 1) * (ny + 1) + j) = ?gp (i + 1) j"
      using that by (intro N; simp)+
    then have "map (\<lambda>n. N ! nat n) (cell_ids ny i j) =
        [?gp i j, ?gp i (j + 1), ?gp (i + 1) (j + 1), ?gp (i + 1) j]"
      by (simp only: cell_ids_def list.map nat_int)
    moreover have "point_inside L [s] = ?in"
      by (rule ext) (simp add: point_inside_def)
    ultimately show ?thesis
      using cell [OF that] unfolding P_def by (simp add: cell_inside_def inside_count_def)
  qed
  have row: "map (cell_of G i) (filter (cell_inside L [s] G N i) [0..<ny]) =
      map (cell_ids ny i) (filter (P i) [0..<ny])" if "i < nz" for i
  proof -
    have "filter (cell_inside L [s] G N i) [0..<ny] = filter (P i) [0..<ny]"
      using that by (intro filter_cong refl) (simp add: inside)
    moreover have "map (cell_of G i) (filter (P i) [0..<ny]) =
        map (cell_ids ny i) (filter (P i) [0..<ny])"
      using that by (intro map_cong refl) (simp add: cell)
    ultimately show ?thesis by (simp only:)
  qed
  have els: "concat (map (\<lambda>i. map (cell_of G i) (filter (cell_inside L [s] G N i) [0..<ny]))
               [0..<nz]) =
      concat (map (\<lambda>i. map (cell_ids ny i) (filter (P i) [0..<ny])) [0..<nz])"
  proof -
    have "map (\<lambda>i. map (cell_of G i) (filter (cell_inside L [s] G N i) [0..<ny])) [0..<nz] =
        map (\<lambda>i. map (cell_ids ny i) (filter (P i) [0..<ny])) [0..<nz]"
      by (rule map_cong [OF refl]) (simp add: row)
    then show ?thesis by (simp only:)
  qed
  have "nodes (quad_elements L [s] G ny nz ?m1) = N"
    by (simp add: quad_elements_eq)
  moreover have "elements (quad_elements L [s] G ny nz ?m1) =
      concat (map (\<lambda>i. map (cell_ids ny i) (filter (P i) [0..<ny])) [0..<nz])"
    using els by (simp add: quad_elements_eq Mesh_def)
  ultimately show ?thesis using run unfolding N_def P_def by blast
qed

subsection \<open>Running the quadrilateral strategy on the example data\<close>

lemma example_shapes_built:
  "PolygonShape convex_lib 1 [(0, 0), (2, 0), (2, 1), (0, 1)] =
     Inr (wide_rect\<lparr>shape_material_id := None\<rparr>)"
  "PolygonShape convex_lib 2 [(1, 0), (2, 0), (2, 1), (1, 1)] =
     Inr (right_rect\<lparr>shape_material_id := None\<rparr>)"
  by (simp_all add: PolygonShape_def create_geometry_def convex_lib_def convex_polygon_error_def
      wide_rect_def right_rect_def Shape_def)

text \<open>An empty geometry has NaN bounds: the strategy returns no mesh.\<close>

lemma quad_mesh_empty_geometry:
  "snd (generate_quad_mesh convex_lib exact_floats gen [Shape 4 [(3, 4)] (Polygon [])] (PyNum 1)) =
     Inr None"
proof -
  have "float_less exact_floats nan_carrier x = False" "float_less exact_floats x nan_carrier = False"
    for x
    by (cases "f_value exact_floats x"; simp add: float_less_def exact_value_nan)+
  moreover have "float_eq exact_floats (f_inf exact_floats) (f_inf exact_floats)"
    by (simp add: float_eq_def exact_value_inf)
  ultimately show ?thesis
    by (simp add: generate_quad_mesh_def Let_def bounds_step_def convex_lib_def Shape_def
        py_min_def py_max_def)
qed

text \<open>A mesh size of zero raises ZeroDivisionError.\<close>

lemma quad_mesh_zero_size:
  "snd (generate_quad_mesh convex_lib exact_floats gen [cut_square] (PyNum 0)) =
     Inl ZeroDivisionError"
proof -
  have g: "shape_geometry cut_square = Polygon [(0, 0), (2, 0), (2, 2), (3 / 2, 2), (0, 1)]"
    "shape_active cut_square"
    by (simp_all add: cut_square_def Shape_def)
  have b: "bounds convex_lib (shape_geometry cut_square) = (0, 0, 2, 2)"
    by (simp add: g convex_lib_def)
  have f: "f_value exact_floats 0 = Fin 0" "f_value exact_floats 2 = Fin 2"
    by (simp_all add: exact_value_small)
  have box: "foldl (bounds_step convex_lib exact_floats)
      ([], f_inf exact_floats, f_inf exact_floats, f_neg_inf exact_floats, f_neg_inf exact_floats)
      [cut_square] = ([cut_square], 0, 0, 2, 2)"
    using g(2) b exact_value_inf f
    by (simp add: bounds_step_def py_min_from_inf py_max_from_neg_inf)
  have "\<not> float_eq exact_floats 0 (f_inf exact_floats)"
    using exact_value_inf(1) f(1) by (rule finite_not_inf)
  then show ?thesis
    unfolding generate_quad_mesh_def Let_def box
    by (simp add: coerce_mesh_size_def f)
qed

section \<open>The claims\<close>

text \<open>
  Claim C3. When the operation executes on an existing section with a new mesh whose
  fibers are generated without error, the section's fibers become the existing fibers,
  unchanged and in order, followed by exactly those new mesh fibers whose id is not the
  id of an existing fiber; the mesh keeps the new mesh fibers alone.
\<close>

theorem execute_merges_fibers_by_id:
  assumes "get_section_by_id (sections dm) (op_section_id op) = Some section"
    and "new_mesh op = Some r"
    and "generate_fibers L (heap dm r) (get_active_shapes section) = (None, m')"
  shows "\<exists>op' dm'. execute_generate_mesh L op dm = (None, op', dm') \<and>
     heap dm' r = m' \<and>
     map_option section_fibers (get_section_by_id (sections dm') (op_section_id op)) =
       Some (section_fibers section @
             filter (\<lambda>f. fiber_id f \<notin> fiber_id ` set (section_fibers section)) (fibers m'))"
  using assms
  by (simp add: execute_generate_mesh_def Let_def get_update_same merge_fibers_eq
      set_fibers_def set_mesh_def)

theorem execute_merges_fibers_by_id_witness:
  "get_section_by_id (sections dm0) 1 =
     Some \<lparr>section_id = 1, shapes = [wide_rect, right_rect], mesh = Some 0,
            section_fibers = [Fiber 1 (1 / 2) (1 / 2) 1 7, manual_fiber]\<rparr> \<and>
   generate_fibers convex_lib (heap dm0 2) [wide_rect, right_rect] =
     (None, two_squares\<lparr>fibers := [Fiber 1 (1 / 2) (1 / 2) 1 7, Fiber 2 (3 / 2) (1 / 2) 1 7]\<rparr>) \<and>
   (\<exists>op' dm'.
      execute_generate_mesh convex_lib
        \<lparr>op_section_id = 1, old_mesh = Some 0, new_mesh = Some 2, old_fibers = None\<rparr> dm0 =
        (None, op', dm') \<and>
      map_option section_fibers (get_section_by_id (sections dm') 1) =
        Some [Fiber 1 (1 / 2) (1 / 2) 1 7, manual_fiber, Fiber 2 (3 / 2) (1 / 2) 1 7])"
proof -
  let ?op = "\<lparr>op_section_id = 1, old_mesh = Some 0, new_mesh = Some 2, old_fibers = None\<rparr>"
  let ?s = "\<lparr>section_id = 1, shapes = [wide_rect, right_rect], mesh = Some 0,
            section_fibers = [Fiber 1 (1 / 2) (1 / 2) 1 7, manual_fiber]\<rparr>"
  have h1: "get_section_by_id (sections dm0) (op_section_id ?op) = Some ?s"
    by (simp add: dm0_section)
  have h2: "new_mesh ?op = Some 2" by simp
  have act: "get_active_shapes ?s = [wide_rect, right_rect]"
    by (simp add: get_active_shapes_def wide_rect_def right_rect_def Shape_def)
  have hp: "heap dm0 2 = two_squares" by (simp add: dm0_def)
  have h3: "generate_fibers convex_lib (heap dm0 2) (get_active_shapes ?s) =
     (None, two_squares\<lparr>fibers := [Fiber 1 (1 / 2) (1 / 2) 1 7, Fiber 2 (3 / 2) (1 / 2) 1 7]\<rparr>)"
    by (simp only: act hp two_squares_fibers)
  from execute_merges_fibers_by_id [OF h1 h2 h3]
  obtain op' dm' where e: "execute_generate_mesh convex_lib ?op dm0 = (None, op', dm')"
    and f: "map_option section_fibers (get_section_by_id (sections dm') (op_section_id ?op)) =
       Some (section_fibers ?s @
             filter (\<lambda>f. fiber_id f \<notin> fiber_id ` set (section_fibers ?s))
               (fibers (two_squares\<lparr>fibers :=
                  [Fiber 1 (1 / 2) (1 / 2) 1 7, Fiber 2 (3 / 2) (1 / 2) 1 7]\<rparr>)))"
    by blast
  have "map_option section_fibers (get_section_by_id (sections dm') 1) =
        Some [Fiber 1 (1 / 2) (1 / 2) 1 7, manual_fiber, Fiber 2 (3 / 2) (1 / 2) 1 7]"
    using f by (simp add: Fiber_def manual_fiber_def)
  with e have "\<exists>op' dm'. execute_generate_mesh convex_lib ?op dm0 = (None, op', dm') \<and>
      map_option section_fibers (get_section_by_id (sections dm') 1) =
        Some [Fiber 1 (1 / 2) (1 / 2) 1 7, manual_fiber, Fiber 2 (3 / 2) (1 / 2) 1 7]"
    by blast
  moreover have "get_section_by_id (sections dm0) 1 = Some ?s" by (simp add: dm0_section)
  moreover have "generate_fibers convex_lib (heap dm0 2) [wide_rect, right_rect] =
     (None, two_squares\<lparr>fibers := [Fiber 1 (1 / 2) (1 / 2) 1 7, Fiber 2 (3 / 2) (1 / 2) 1 7]\<rparr>)"
    by (simp only: hp two_squares_fibers)
  ultimately show ?thesis by blast
qed

text \<open>
  Claim C6. On a mesh whose elements are well formed (the empty mesh among them),
  \<open>generate_fibers\<close> returns one fiber per element, in the order of the elements, the
  fiber of element \<open>k\<close> (counted from 0) having id \<open>k + 1\<close>, the area and centroid of the
  element's polygon and the material resolved at that centroid; the list becomes the
  mesh's \<open>fibers\<close> whatever was stored there before.
\<close>

theorem generate_fibers_one_per_element:
  assumes "list_all (element_ok L (nodes m)) (elements m)"
  shows "\<exists>fs. (\<forall>previous. generate_fibers L (m\<lparr>fibers := previous\<rparr>) shs = (None, m\<lparr>fibers := fs\<rparr>)) \<and>
     length fs = length (elements m) \<and>
     (\<forall>k < length (elements m).
        fiber_id (fs ! k) = int k + 1 \<and>
        (\<exists>cs a y z. node_coords (nodes m) (elements m ! k) = Inr cs \<and>
           element_polygon L cs = Inr (a, (y, z)) \<and>
           fs ! k = Fiber (int k + 1) y z a (fiber_material L shs (y, z))))"
proof -
  from fibers_loop_ok [OF assms, of shs 1 "[]"]
  obtain fs where fs: "fibers_loop L shs (nodes m) (elements m) 1 [] = (None, fs)"
    "length fs = length (elements m)"
    "\<forall>k < length (elements m). \<exists>cs a y z. node_coords (nodes m) (elements m ! k) = Inr cs \<and>
         element_polygon L cs = Inr (a, (y, z)) \<and>
         fs ! k = Fiber (1 + int k) y z a (fiber_material L shs (y, z))"
    by auto
  have "\<forall>previous. generate_fibers L (m\<lparr>fibers := previous\<rparr>) shs = (None, m\<lparr>fibers := fs\<rparr>)"
    using fs(1) by (simp add: generate_fibers_def)
  moreover have "fiber_id (fs ! k) = int k + 1 \<and>
        (\<exists>cs a y z. node_coords (nodes m) (elements m ! k) = Inr cs \<and>
           element_polygon L cs = Inr (a, (y, z)) \<and>
           fs ! k = Fiber (int k + 1) y z a (fiber_material L shs (y, z)))"
    if "k < length (elements m)" for k
  proof -
    from fs(3) that obtain cs a y z where *: "node_coords (nodes m) (elements m ! k) = Inr cs"
      "element_polygon L cs = Inr (a, (y, z))"
      "fs ! k = Fiber (1 + int k) y z a (fiber_material L shs (y, z))"
      by blast
    have "1 + int k = int k + 1" by simp
    with * show ?thesis by (metis Fiber_def fiber.select_convs(1))
  qed
  ultimately show ?thesis using fs(2) by blast
qed

theorem generate_fibers_one_per_element_witness:
  "list_all (element_ok convex_lib (nodes two_squares)) (elements two_squares) \<and>
   list_all (element_ok convex_lib (nodes (Mesh 1))) (elements (Mesh 1)) \<and>
   (\<exists>fs. generate_fibers convex_lib two_squares [wide_rect, right_rect] =
            (None, two_squares\<lparr>fibers := fs\<rparr>) \<and> length fs = 2) \<and>
   (\<exists>fs. generate_fibers convex_lib (Mesh 1) [wide_rect, right_rect] =
            (None, (Mesh 1)\<lparr>fibers := fs\<rparr>) \<and> length fs = 0)"
proof -
  have h1: "list_all (element_ok convex_lib (nodes two_squares)) (elements two_squares)"
    by (simp add: element_ok_def example_defs)
  have h2: "list_all (element_ok convex_lib (nodes (Mesh 1))) (elements (Mesh 1))"
    by (simp add: Mesh_def)
  have l1: "length (elements two_squares) = 2" by (simp add: two_squares_def)
  have l2: "length (elements (Mesh 1)) = 0" by (simp add: Mesh_def)
  have e1: "two_squares\<lparr>fibers := fibers two_squares\<rparr> = two_squares" by simp
  have e2: "(Mesh 1)\<lparr>fibers := fibers (Mesh 1)\<rparr> = Mesh 1" by simp
  from generate_fibers_one_per_element [OF h1, of "[wide_rect, right_rect]"]
  obtain fs where "\<forall>previous. generate_fibers convex_lib (two_squares\<lparr>fibers := previous\<rparr>)
      [wide_rect, right_rect] = (None, two_squares\<lparr>fibers := fs\<rparr>)" "length fs = 2"
    unfolding l1 by blast
  then have a: "\<exists>fs. generate_fibers convex_lib two_squares [wide_rect, right_rect] =
            (None, two_squares\<lparr>fibers := fs\<rparr>) \<and> length fs = 2"
    using e1 by metis
  from generate_fibers_one_per_element [OF h2, of "[wide_rect, right_rect]"]
  obtain fs' where "\<forall>previous. generate_fibers convex_lib ((Mesh 1)\<lparr>fibers := previous\<rparr>)
      [wide_rect, right_rect] = (None, (Mesh 1)\<lparr>fibers := fs'\<rparr>)" "length fs' = 0"
    unfolding l2 by blast
  then have b: "\<exists>fs. generate_fibers convex_lib (Mesh 1) [wide_rect, right_rect] =
            (None, (Mesh 1)\<lparr>fibers := fs\<rparr>) \<and> length fs = 0"
    using e2 by metis
  from h1 h2 a b show ?thesis by blast
qed

text \<open>
  Claim C7. Every fiber that \<open>generate_fibers\<close> produces carries the material of the
  first shape, in list order, that is active and contains the fiber's centroid: that
  shape's material id when it has one and 1 when it has none; 1 too when no shape
  qualifies. A centroid in the overlap of two shapes takes the first-listed one.
\<close>

theorem fiber_material_first_containing_shape:
  assumes "f \<in> set (fibers (snd (generate_fibers L m shs)))"
  shows "fiber_material_id f =
     (case find (\<lambda>s. shape_active s \<and> contains L (shape_geometry s) (fiber_y f, fiber_z f)) shs of
        None \<Rightarrow> 1
      | Some s \<Rightarrow> (case shape_material_id s of Some mat \<Rightarrow> mat | None \<Rightarrow> 1))"
proof -
  have "\<forall>f \<in> set (snd (fibers_loop L shs (nodes m) (elements m) 1 [])).
          fiber_material_id f = fiber_material L shs (fiber_y f, fiber_z f)"
    by (rule fibers_loop_material) simp
  moreover have "fibers (snd (generate_fibers L m shs)) =
      snd (fibers_loop L shs (nodes m) (elements m) 1 [])"
    by (simp add: generate_fibers_def split: prod.splits)
  ultimately have "fiber_material_id f = fiber_material L shs (fiber_y f, fiber_z f)"
    using assms by simp
  then show ?thesis by (simp add: fiber_material_find)
qed

theorem fiber_material_first_containing_shape_witness:
  "Fiber 2 (3 / 2) (1 / 2) 1 7 \<in>
     set (fibers (snd (generate_fibers convex_lib two_squares [wide_rect, right_rect]))) \<and>
   contains convex_lib (shape_geometry wide_rect) (3 / 2, 1 / 2) \<and>
   contains convex_lib (shape_geometry right_rect) (3 / 2, 1 / 2) \<and>
   shape_material_id wide_rect = Some 7 \<and> shape_material_id right_rect = Some 9 \<and>
   fiber_material_id (Fiber 2 (3 / 2) (1 / 2) 1 7) =
     (case find (\<lambda>s. shape_active s \<and>
                   contains convex_lib (shape_geometry s)
                     (fiber_y (Fiber 2 (3 / 2) (1 / 2) 1 7), fiber_z (Fiber 2 (3 / 2) (1 / 2) 1 7)))
             [wide_rect, right_rect] of
        None \<Rightarrow> 1
      | Some s \<Rightarrow> (case shape_material_id s of Some mat \<Rightarrow> mat | None \<Rightarrow> 1))"
proof -
  have h: "Fiber 2 (3 / 2) (1 / 2) 1 7 \<in>
     set (fibers (snd (generate_fibers convex_lib two_squares [wide_rect, right_rect])))"
    by (simp add: two_squares_fibers)
  have c: "contains convex_lib (shape_geometry wide_rect) (3 / 2, 1 / 2)"
    "contains convex_lib (shape_geometry right_rect) (3 / 2, 1 / 2)"
    "shape_material_id wide_rect = Some 7" "shape_material_id right_rect = Some 9"
    by (simp_all add: example_defs)
  from fiber_material_first_containing_shape [OF h] h c show ?thesis by blast
qed

text \<open>
  Claim C4. When generating a mesh on an existing section succeeds, undo followed by redo
  succeeds too and leaves the section with a mesh and a fiber list equal to those right
  after the original execute. Redo executes the stored operation on the stored mesh; no
  triangulation routine is among the things it depends on.
\<close>

theorem redo_after_undo_same_section:
  assumes sec: "get_section_by_id (sections dm) sid = Some s"
    and ex: "dm_generate_mesh L dm sid new = (None, dm1)"
  shows "\<exists>dm3. dm_redo L (dm_undo dm1) = (None, dm3) \<and>
           section_view dm3 sid = section_view dm1 sid"
proof -
  let ?op = "\<lparr>op_section_id = sid, old_mesh = mesh s, new_mesh = new, old_fibers = None\<rparr>"
  from sec ex obtain op1 dm' where e: "execute_generate_mesh L ?op dm = (None, op1, dm')"
    and dm1: "dm1 = dm'\<lparr>undo_stack := undo_stack dm' @ [OperationGenerateMesh op1], redo_stack := []\<rparr>"
    by (auto simp: dm_generate_mesh_def split: prod.splits option.splits)
  from execute_generate_mesh_ok [of dm ?op s L op1 dm'] sec e
  obtain r fs where r: "new = Some r"
    and g: "generate_fibers L (heap dm r) (get_active_shapes s) = (None, (heap dm r)\<lparr>fibers := fs\<rparr>)"
    and op1: "op1 = \<lparr>op_section_id = sid, old_mesh = mesh s, new_mesh = Some r,
                       old_fibers = Some (section_fibers s)\<rparr>"
    and h': "heap dm' = (heap dm)(r := (heap dm r)\<lparr>fibers := fs\<rparr>)"
    and s': "get_section_by_id (sections dm') sid =
               Some (s\<lparr>mesh := Some r, section_fibers := merge_fibers (section_fibers s) fs\<rparr>)"
    by auto
  let ?s1 = "s\<lparr>mesh := Some r, section_fibers := merge_fibers (section_fibers s) fs\<rparr>"
  have view1: "section_view dm1 sid =
      Some (Some ((heap dm r)\<lparr>fibers := fs\<rparr>), merge_fibers (section_fibers s) fs)"
    using dm1 s' h' by (simp add: section_view_def)
  let ?dmp = "dm1\<lparr>undo_stack := butlast (undo_stack dm1)\<rparr>"
  let ?dmu = "undo_generate_mesh op1 ?dmp"
  have s1p: "get_section_by_id (sections ?dmp) (op_section_id op1) = Some ?s1"
    using dm1 s' op1 by simp
  have undo: "dm_undo dm1 = ?dmu\<lparr>redo_stack := redo_stack ?dmu @ [OperationGenerateMesh op1]\<rparr>"
    using dm1 by (simp add: dm_undo_def Let_def)
  note u = undo_generate_mesh_run [OF s1p]
  have su: "get_section_by_id (sections ?dmu) sid = Some s"
    using u op1 by simp
  have hu: "heap ?dmu r = (heap dm r)\<lparr>fibers := (if mesh s = Some r then section_fibers s else fs)\<rparr>"
    using u op1 dm1 h' by (auto split: option.splits)
  let ?dmq = "(dm_undo dm1)\<lparr>redo_stack := butlast (redo_stack (dm_undo dm1))\<rparr>"
  have sq: "get_section_by_id (sections ?dmq) (op_section_id op1) = Some s"
    using su undo op1 by simp
  have hq: "heap ?dmq r = (heap dm r)\<lparr>fibers := (if mesh s = Some r then section_fibers s else fs)\<rparr>"
    using hu undo by simp
  have gq: "generate_fibers L (heap ?dmq r) (get_active_shapes s) =
              (None, (heap ?dmq r)\<lparr>fibers := fs\<rparr>)"
    unfolding hq using g by (simp add: generate_fibers_ignores_fibers)
  have nm: "new_mesh op1 = Some r" using op1 by simp
  from execute_generate_mesh_run [OF sq nm gq]
  obtain dm2 where e2: "execute_generate_mesh L op1 ?dmq =
        (None, op1\<lparr>old_fibers := Some (section_fibers s)\<rparr>, dm2)"
    and h2: "heap dm2 = (heap ?dmq)(r := (heap ?dmq r)\<lparr>fibers := fs\<rparr>)"
    and s2: "get_section_by_id (sections dm2) (op_section_id op1) = Some ?s1"
    by blast
  let ?dm3 = "dm2\<lparr>undo_stack := undo_stack dm2 @
                 [OperationGenerateMesh (op1\<lparr>old_fibers := Some (section_fibers s)\<rparr>)]\<rparr>"
  have "dm_redo L (dm_undo dm1) = (None, ?dm3)"
    using undo e2 by (simp add: dm_redo_def Let_def)
  moreover have "section_view ?dm3 sid =
      Some (Some ((heap dm r)\<lparr>fibers := fs\<rparr>), merge_fibers (section_fibers s) fs)"
    using s2 h2 hq op1 by (simp add: section_view_def)
  ultimately show ?thesis using view1 by simp
qed

theorem redo_after_undo_same_section_witness:
  "fst (dm_generate_mesh convex_lib dm0 1 (Some 2)) = None \<and>
   (\<exists>dm3. dm_redo convex_lib (dm_undo (snd (dm_generate_mesh convex_lib dm0 1 (Some 2)))) =
            (None, dm3) \<and>
          section_view dm3 1 = section_view (snd (dm_generate_mesh convex_lib dm0 1 (Some 2))) 1)"
proof -
  have h: "fst (dm_generate_mesh convex_lib dm0 1 (Some 2)) = None"
    by (simp add: dm0_generate)
  then have h2: "dm_generate_mesh convex_lib dm0 1 (Some 2) =
      (None, snd (dm_generate_mesh convex_lib dm0 1 (Some 2)))"
    by (simp add: prod_eq_iff)
  from redo_after_undo_same_section [OF dm0_section h2] h show ?thesis by blast
qed

text \<open>
  Claim C1, at a section whose fiber list holds a manually placed fiber beside the fiber
  of its mesh: execute and then undo give the section its fiber list back, but the prior
  mesh no longer has the fibers it had: undo stores the section's list in it.
\<close>

theorem undo_overwrites_prior_mesh_fibers:
  "fst (dm_generate_mesh convex_lib dm0 1 (Some 2)) = None \<and>
   fibers (heap dm0 0) = [Fiber 1 (1 / 2) (1 / 2) 1 7] \<and>
   fibers (heap (dm_undo (snd (dm_generate_mesh convex_lib dm0 1 (Some 2)))) 0) =
     [Fiber 1 (1 / 2) (1 / 2) 1 7, manual_fiber] \<and>
   section_view (dm_undo (snd (dm_generate_mesh convex_lib dm0 1 (Some 2)))) 1 =
     Some (Some (old_square\<lparr>fibers := [Fiber 1 (1 / 2) (1 / 2) 1 7, manual_fiber]\<rparr>),
           [Fiber 1 (1 / 2) (1 / 2) 1 7, manual_fiber]) \<and>
   section_view dm0 1 = Some (Some old_square, [Fiber 1 (1 / 2) (1 / 2) 1 7, manual_fiber])"
  by (simp add: dm0_generate dm_undo_def undo_generate_mesh_def Let_def section_view_def
      get_update_twice set_mesh_def set_fibers_def)
    (simp add: dm0_def old_square_def)

text \<open>
  Claim C2, at a shape built by the constructor (its \<open>mesh_size\<close> is Python's \<open>None\<close>, that
  is, not set) and a global mesh size of 0.5: the size both strategies go on with is 0.1,
  not 0.5. The triangulation is asked for 0.1, and the quadrilateral strategy lays the
  21 by 11 nodes of size 0.1 over the 2 by 1 box, where 0.5 would give 5 by 3. The
  attribute exists, so \<open>getattr\<close> never takes its default.
\<close>

theorem global_mesh_size_ignored_when_unset:
  "shape_mesh_size wide_rect = Some PyNone \<and>
   getattr_mesh_size wide_rect (PyNum (1 / 2)) = PyNone \<and>
   coerce_mesh_size (getattr_mesh_size wide_rect (PyNum (1 / 2))) = 1 / 10 \<and>
   snd (generate_mesh convex_lib exact_floats echo_triangulation \<lparr>current_mesh_id = 1\<rparr>
          [wide_rect] (PyNum (1 / 2))) =
     Inr (Some \<lparr>mesh_id = 1, nodes = [(1 / 10, 1 / 10)], elements = [],
                element_materials = [], fibers = []\<rparr>) \<and>
   (\<exists>m. snd (generate_quad_mesh convex_lib exact_floats \<lparr>current_mesh_id = 1\<rparr> [wide_rect]
                (getattr_mesh_size wide_rect (PyNum (1 / 2)))) = Inr (Some m) \<and>
        length (nodes m) = 21 * 11)"
proof -
  have g: "shape_geometry wide_rect = Polygon [(0, 0), (2, 0), (2, 1), (0, 1)]"
    "shape_active wide_rect" "shape_mesh_size wide_rect = Some PyNone"
    by (simp_all add: wide_rect_def Shape_def)
  have s: "getattr_mesh_size wide_rect (PyNum (1 / 2)) = PyNone"
    by (simp add: getattr_mesh_size_def g)
  have c: "coerce_mesh_size PyNone = 1 / 10" by (simp add: coerce_mesh_size_def)
  have c0: "f_value exact_floats (coerce_mesh_size PyNone) \<noteq> Fin 0"
    by (simp add: c exact_value_small)
  have b: "bounds convex_lib (shape_geometry wide_rect) = (0, 0, 2, 1)"
    by (simp add: g convex_lib_def)
  have fin: "f_value exact_floats 0 = Fin 0" "f_value exact_floats 2 = Fin 2"
    "f_value exact_floats 1 = Fin 1"
    by (simp_all add: exact_value_small)
  have qy: "f_value exact_floats (f_div exact_floats (f_sub exact_floats 2 0)
              (coerce_mesh_size PyNone)) = Fin 20"
    by (simp add: c exact_value_small)
  have qz: "f_value exact_floats (f_div exact_floats (f_sub exact_floats 1 0)
              (coerce_mesh_size PyNone)) = Fin 10"
    by (simp add: c exact_value_small)
  have ny: "(20 :: nat) = nat (max 2 \<lfloor>20 :: real\<rfloor>)" by simp
  have nz: "(10 :: nat) = nat (max 2 \<lfloor>10 :: real\<rfloor>)" by simp
  from generate_quad_mesh_single
    [OF g(2) b exact_value_inf fin(1) fin(1) fin(2) fin(3) c0 qy qz ny nz,
      of "\<lparr>current_mesh_id = 1\<rparr>"]
  obtain m where "generate_quad_mesh convex_lib exact_floats \<lparr>current_mesh_id = 1\<rparr>
        [wide_rect] PyNone =
           (\<lparr>current_mesh_id = 1\<rparr>\<lparr>current_mesh_id := current_mesh_id \<lparr>current_mesh_id = 1\<rparr> + 1\<rparr>,
            Inr (Some m))"
    and "nodes m =
      concat (map (\<lambda>i. map (grid_point exact_floats 0 0 (f_sub exact_floats 2 0)
                                 (f_sub exact_floats 1 0) 20 10 i) [0..<20 + 1])
                [0..<10 + 1])"
    by blast
  then have q: "\<exists>m. snd (generate_quad_mesh convex_lib exact_floats \<lparr>current_mesh_id = 1\<rparr>
        [wide_rect] PyNone) = Inr (Some m) \<and> length (nodes m) = 21 * 11"
    by (simp add: length_concat_rows)
  have t: "snd (generate_mesh convex_lib exact_floats echo_triangulation \<lparr>current_mesh_id = 1\<rparr>
          [wide_rect] (PyNum (1 / 2))) =
     Inr (Some \<lparr>mesh_id = 1, nodes = [(1 / 10, 1 / 10)], elements = [],
                element_materials = [], fibers = []\<rparr>)"
    by (simp add: generate_mesh_def generate_tri_mesh_def getattr_mesh_size_def
      coerce_mesh_size_def echo_triangulation_def merge_shape_mesh_def add_node_def
      wide_rect_def Shape_def Mesh_def Let_def)
  from g(3) s c q t show ?thesis by simp
qed

text \<open>
  Claim C5 fails as stated: a list holding only an inactive shape filters to the empty
  list, yet \<open>generate_mesh\<close> returns an (empty) mesh for it, not null.
\<close>

theorem generate_mesh_inactive_only_not_null:
  "filter shape_active [wide_rect\<lparr>shape_active := False\<rparr>] = [] \<and>
   snd (generate_mesh convex_lib exact_floats echo_triangulation \<lparr>current_mesh_id = 1\<rparr>
          [wide_rect\<lparr>shape_active := False\<rparr>] (PyNum (1 / 2))) = Inr (Some (Mesh 1)) \<and>
   snd (generate_mesh convex_lib exact_floats echo_triangulation \<lparr>current_mesh_id = 1\<rparr>
          [wide_rect\<lparr>shape_active := False\<rparr>] (PyNum (1 / 2))) \<noteq> Inr None"
  by (simp add: generate_mesh_def)

text \<open>
  Claim C5 as amended. \<open>generate_mesh\<close> returns null exactly when the list it is given is
  empty; the test comes before any filtering. Given a non-empty list in which every shape
  is inactive or fails to triangulate, it returns a mesh with no nodes and no elements.
\<close>

theorem generate_mesh_null_iff_no_shapes:
  "(snd (generate_mesh L A T gen shs g) = Inr None \<longleftrightarrow> shs = []) \<and>
   (shs \<noteq> [] \<and>
    (\<forall>s \<in> set shs. \<not> shape_active s \<or>
       (shape_mesh_type s \<noteq> ''quadrilateral'' \<and>
        T [s] (coerce_mesh_size (getattr_mesh_size s g)) = None)) \<longrightarrow>
    (\<exists>m. snd (generate_mesh L A T gen shs g) = Inr (Some m) \<and> nodes m = [] \<and> elements m = []))"
proof (intro conjI impI)
  show "snd (generate_mesh L A T gen shs g) = Inr None \<longleftrightarrow> shs = []"
    using generate_mesh_not_null [of shs L A T gen g] by (auto simp: generate_mesh_def)
next
  assume a: "shs \<noteq> [] \<and>
    (\<forall>s \<in> set shs. \<not> shape_active s \<or>
       (shape_mesh_type s \<noteq> ''quadrilateral'' \<and>
        T [s] (coerce_mesh_size (getattr_mesh_size s g)) = None))"
  then have "snd (generate_mesh L A T gen shs g) = Inr (Some (Mesh (current_mesh_id gen)))"
    by (simp add: generate_mesh_def shapes_loop_nothing_meshed)
  then show "\<exists>m. snd (generate_mesh L A T gen shs g) = Inr (Some m) \<and> nodes m = [] \<and> elements m = []"
    by (simp add: Mesh_def)
qed

theorem generate_mesh_null_iff_no_shapes_witness:
  "\<not> shape_active (wide_rect\<lparr>shape_active := False\<rparr>) \<and>
   shape_active right_rect \<and>
   shape_mesh_type right_rect \<noteq> ''quadrilateral'' \<and>
   failing_triangulation [right_rect]
     (coerce_mesh_size (getattr_mesh_size right_rect (PyNum (1 / 2)))) = None \<and>
   snd (generate_mesh convex_lib exact_floats failing_triangulation \<lparr>current_mesh_id = 1\<rparr>
          [wide_rect\<lparr>shape_active := False\<rparr>, right_rect] (PyNum (1 / 2))) \<noteq> Inr None \<and>
   (\<exists>m. snd (generate_mesh convex_lib exact_floats failing_triangulation \<lparr>current_mesh_id = 1\<rparr>
            [wide_rect\<lparr>shape_active := False\<rparr>, right_rect] (PyNum (1 / 2))) = Inr (Some m) \<and>
        nodes m = [] \<and> elements m = [])"
proof -
  have a: "\<not> shape_active (wide_rect\<lparr>shape_active := False\<rparr>)" "shape_active right_rect"
    "shape_mesh_type right_rect \<noteq> ''quadrilateral''"
    "failing_triangulation [right_rect]
       (coerce_mesh_size (getattr_mesh_size right_rect (PyNum (1 / 2)))) = None"
    by (simp_all add: failing_triangulation_def right_rect_def Shape_def)
  then have h: "[wide_rect\<lparr>shape_active := False\<rparr>, right_rect] \<noteq> [] \<and>
   (\<forall>s \<in> set [wide_rect\<lparr>shape_active := False\<rparr>, right_rect]. \<not> shape_active s \<or>
       (shape_mesh_type s \<noteq> ''quadrilateral'' \<and>
        failing_triangulation [s] (coerce_mesh_size (getattr_mesh_size s (PyNum (1 / 2)))) = None))"
    by simp
  from generate_mesh_null_iff_no_shapes
    [of convex_lib exact_floats failing_triangulation "\<lparr>current_mesh_id = 1\<rparr>"
      "[wide_rect\<lparr>shape_active := False\<rparr>, right_rect]" "PyNum (1 / 2)"] h a
  show ?thesis by blast
qed

text \<open>
  Claim C9 fails as stated, in both its parts. A list of one vertex has fewer than 3
  distinct vertices and gets no fallback: its geometry is the empty polygon, not the unit
  square. A list of two distinct vertices makes the constructor fail, with the ValueError
  of the polygon constructor.
\<close>

theorem short_vertex_lists_no_fallback:
  "card (set [(3, 4 :: real)] :: (real \<times> real) set) < 3 \<and>
   PolygonShape convex_lib 1 [(3, 4)] = Inr (Shape 1 [(3, 4)] (Polygon [])) \<and>
   Polygon [] \<noteq> Polygon [(0, 0), (1, 0), (1, 1), (0, 1)] \<and>
   card (set [(0, 0), (1, 1 :: real)] :: (real \<times> real) set) < 3 \<and>
   PolygonShape convex_lib 1 [(0, 0), (1, 1)] = Inl ValueError"
  by (simp add: PolygonShape_def create_geometry_def convex_lib_def convex_polygon_error_def)

text \<open>
  Claim C9 as amended. Constructing a PolygonShape from an empty vertex list substitutes
  the unit square and does not fail. A non-empty vertex list, however few distinct
  vertices it has, gets no fallback: closed first if its ends differ, it is given without
  the closing vertex to the polygon constructor, and the construction yields that polygon
  or fails with the error of the polygon constructor.
\<close>

theorem polygon_fallback_only_when_empty:
  "PolygonShape L i [] = Inr (Shape i [] (Polygon [(0, 0), (1, 0), (1, 1), (0, 1)])) \<and>
   (vs \<noteq> [] \<longrightarrow>
      PolygonShape L i vs =
        (case polygon_error L (if hd vs \<noteq> last vs then vs else butlast vs) of
           Some e \<Rightarrow> Inl e
         | None \<Rightarrow>
             Inr (Shape i (if hd vs \<noteq> last vs then vs @ [hd vs] else vs)
                    (Polygon (if hd vs \<noteq> last vs then vs else butlast vs)))))"
  by (simp add: PolygonShape_def create_geometry_def Let_def split: option.splits)

theorem polygon_fallback_only_when_empty_witness:
  "[(0, 0), (2, 0), (2, 1), (0, 1 :: real)] \<noteq> ([] :: (real \<times> real) list) \<and>
   polygon_error convex_lib [(0, 0), (2, 0), (2, 1), (0, 1)] = None \<and>
   PolygonShape convex_lib 1 [] = Inr (Shape 1 [] (Polygon [(0, 0), (1, 0), (1, 1), (0, 1)])) \<and>
   PolygonShape convex_lib 1 [(0, 0), (2, 0), (2, 1), (0, 1)] =
     Inr (Shape 1 [(0, 0), (2, 0), (2, 1), (0, 1), (0, 0)]
            (Polygon [(0, 0), (2, 0), (2, 1), (0, 1)])) \<and>
   polygon_error convex_lib [(0, 0), (1, 1)] = Some ValueError \<and>
   PolygonShape convex_lib 1 [(0, 0), (1, 1)] = Inl ValueError"
proof -
  have e: "polygon_error convex_lib [(0, 0), (2, 0), (2, 1), (0, 1)] = None"
    "polygon_error convex_lib [(0, 0), (1, 1)] = Some ValueError"
    by (simp_all add: convex_lib_def convex_polygon_error_def)
  from polygon_fallback_only_when_empty [of convex_lib 1 "[(0, 0), (2, 0), (2, 1), (0, 1)]"]
    polygon_fallback_only_when_empty [of convex_lib 1 "[(0, 0), (1, 1)]"] e
  show ?thesis by simp
qed

text \<open>
  Claim C10. In every mesh that \<open>generate_mesh\<close> returns, whatever the strategies and
  the triangulation library produced for the single shapes, every node index inside an
  element is a valid index into the node list: at least 0 and less than the number of
  nodes.
\<close>

theorem generate_mesh_index_valid:
  assumes "snd (generate_mesh L A T gen shs g) = Inr (Some m)"
  shows "\<forall>e \<in> set (elements m). \<forall>i \<in> set e. 0 \<le> i \<and> i < int (length (nodes m))"
proof -
  from assms have ne: "shs \<noteq> []" by (auto simp: generate_mesh_def)
  with assms obtain gen' where
    "shapes_loop L A T g shs (gen\<lparr>current_mesh_id := current_mesh_id gen + 1\<rparr>)
       (Mesh (current_mesh_id gen)) = (gen', Inr m)"
    by (auto simp: generate_mesh_def split: prod.splits sum.splits)
  moreover have "index_valid (Mesh (current_mesh_id gen))"
    by (simp add: index_valid_def Mesh_def)
  ultimately have "index_valid m" by (rule shapes_loop_valid)
  then show ?thesis by (simp add: index_valid_def list_all_iff)
qed

theorem generate_mesh_index_valid_witness:
  "snd (generate_mesh convex_lib exact_floats one_triangle \<lparr>current_mesh_id = 1\<rparr> [wide_rect, right_rect]
          (PyNum (1 / 2))) =
     Inr (Some \<lparr>mesh_id = 1,
                nodes = [(0, 0), (1 / 10, 0), (0, 1 / 10), (0, 0), (1 / 10, 0), (0, 1 / 10)],
                elements = [[0, 1, 2], [3, 4, 5]], element_materials = [7, 9], fibers = []\<rparr>) \<and>
   list_all (list_all (\<lambda>i. 0 \<le> i \<and> i < 6)) [[0, 1, 2], [3, 4, 5 :: int]]"
proof -
  have h: "snd (generate_mesh convex_lib exact_floats one_triangle \<lparr>current_mesh_id = 1\<rparr>
                  [wide_rect, right_rect] (PyNum (1 / 2))) =
     Inr (Some \<lparr>mesh_id = 1,
                nodes = [(0, 0), (1 / 10, 0), (0, 1 / 10), (0, 0), (1 / 10, 0), (0, 1 / 10)],
                elements = [[0, 1, 2], [3, 4, 5]], element_materials = [7, 9], fibers = []\<rparr>)"
    by (simp add: generate_mesh_def generate_tri_mesh_def getattr_mesh_size_def
        coerce_mesh_size_def one_triangle_def merge_shape_mesh_def add_node_def add_element_def
        material_or_1_def wide_rect_def right_rect_def Shape_def Mesh_def Let_def)
  from generate_mesh_index_valid [OF h] h show ?thesis by simp
qed

text \<open>
  Claim C8. Take an active shape whose bounding box is finite, an effective mesh size
  other than zero, and let the float quotients \<open>width / size\<close> and \<open>height / size\<close> be
  finite, with values \<open>q_y\<close> and \<open>q_z\<close>. Then the quadrilateral strategy returns a mesh, and
  with \<open>nY = max 2 \<lfloor>q_y\<rfloor>\<close> and \<open>nZ = max 2 \<lfloor>q_z\<rfloor>\<close>: the mesh has \<open>(nZ + 1) * (nY + 1)\<close>
  nodes, node \<open>i * (nY + 1) + j\<close> being the grid point of row \<open>i\<close> and column \<open>j\<close>; the cell
  \<open>(i, j)\<close> is an element exactly when at least 3 of its 4 corners are contained in or
  touch the shape; and there is no other element. So a cell with 2 corners in the shape is
  left out and one with 3 is kept. This holds whatever the float arithmetic rounds to.
\<close>

theorem quad_mesh_grid_and_inclusion:
  assumes "shape_active s"
    and "bounds L (shape_geometry s) = (min_y, min_z, max_y, max_z)"
    and "f_value A (f_inf A) = PosInf" and "f_value A (f_neg_inf A) = NegInf"
    and "f_value A min_y = Fin r0" and "f_value A min_z = Fin r1"
    and "f_value A max_y = Fin r2" and "f_value A max_z = Fin r3"
    and "f_value A (coerce_mesh_size mesh_size) \<noteq> Fin 0"
    and "f_value A (f_div A (f_sub A max_y min_y) (coerce_mesh_size mesh_size)) = Fin q_y"
    and "f_value A (f_div A (f_sub A max_z min_z) (coerce_mesh_size mesh_size)) = Fin q_z"
    and "nY = nat (max 2 \<lfloor>q_y\<rfloor>)"
    and "nZ = nat (max 2 \<lfloor>q_z\<rfloor>)"
  shows "\<exists>gen' m. generate_quad_mesh L A gen [s] mesh_size = (gen', Inr (Some m)) \<and>
     length (nodes m) = (nZ + 1) * (nY + 1) \<and>
     (\<forall>i \<le> nZ. \<forall>j \<le> nY.
        nodes m ! (i * (nY + 1) + j) =
          grid_point A min_y min_z (f_sub A max_y min_y) (f_sub A max_z min_z) nY nZ i j) \<and>
     (\<forall>i < nZ. \<forall>j < nY.
        cell_ids nY i j \<in> set (elements m) \<longleftrightarrow>
          3 \<le> length (filter
                 (\<lambda>p. contains L (shape_geometry s) p \<or> touches L (shape_geometry s) p)
                 [grid_point A min_y min_z (f_sub A max_y min_y) (f_sub A max_z min_z) nY nZ
                    i j,
                  grid_point A min_y min_z (f_sub A max_y min_y) (f_sub A max_z min_z) nY nZ
                    i (j + 1),
                  grid_point A min_y min_z (f_sub A max_y min_y) (f_sub A max_z min_z) nY nZ
                    (i + 1) (j + 1),
                  grid_point A min_y min_z (f_sub A max_y min_y) (f_sub A max_z min_z) nY nZ
                    (i + 1) j])) \<and>
     (\<forall>e \<in> set (elements m). \<exists>i < nZ. \<exists>j < nY. e = cell_ids nY i j)"
proof -
  let ?gp = "grid_point A min_y min_z (f_sub A max_y min_y) (f_sub A max_z min_z) nY nZ"
  define P where "P = (\<lambda>i j. 3 \<le> length (filter
      (\<lambda>p. contains L (shape_geometry s) p \<or> touches L (shape_geometry s) p)
      [?gp i j, ?gp i (j + 1), ?gp (i + 1) (j + 1), ?gp (i + 1) j]))"
  from generate_quad_mesh_single [OF assms, of gen]
  obtain m where run: "generate_quad_mesh L A gen [s] mesh_size =
           (gen\<lparr>current_mesh_id := current_mesh_id gen + 1\<rparr>, Inr (Some m))"
    and ns: "nodes m = concat (map (\<lambda>i. map (?gp i) [0..<nY + 1]) [0..<nZ + 1])"
    and es: "elements m = concat (map (\<lambda>i. map (cell_ids nY i) (filter (P i) [0..<nY])) [0..<nZ])"
    unfolding P_def by blast
  have len: "length (nodes m) = (nZ + 1) * (nY + 1)"
    unfolding ns by (rule length_concat_rows)
  have nth: "nodes m ! (i * (nY + 1) + j) = ?gp i j" if "i \<le> nZ" "j \<le> nY" for i j
    unfolding ns using that by (intro nth_concat_rows) simp_all
  have mem: "e \<in> set (elements m) \<longleftrightarrow> (\<exists>i < nZ. \<exists>j < nY. P i j \<and> e = cell_ids nY i j)" for e
    unfolding es by auto
  have iff: "cell_ids nY i j \<in> set (elements m) \<longleftrightarrow> P i j" if "i < nZ" "j < nY" for i j
  proof
    assume "cell_ids nY i j \<in> set (elements m)"
    then obtain i' j' where *: "i' < nZ" "j' < nY" "P i' j'" "cell_ids nY i j = cell_ids nY i' j'"
      unfolding mem by blast
    from cell_ids_inj [OF *(4)] that *(2) have "i = i'" "j = j'" by simp_all
    with *(3) show "P i j" by simp
  next
    assume "P i j"
    with that show "cell_ids nY i j \<in> set (elements m)" unfolding mem by blast
  qed
  have only: "\<forall>e \<in> set (elements m). \<exists>i < nZ. \<exists>j < nY. e = cell_ids nY i j"
    using mem by blast
  from run len nth iff only show ?thesis unfolding P_def by blast
qed

theorem quad_mesh_grid_and_inclusion_witness:
  "shape_active cut_square \<and>
   bounds convex_lib (shape_geometry cut_square) = (0, 0, 2, 2) \<and>
   f_value exact_floats (f_inf exact_floats) = PosInf \<and>
   f_value exact_floats (f_neg_inf exact_floats) = NegInf \<and>
   f_value exact_floats 0 = Fin 0 \<and> f_value exact_floats 2 = Fin 2 \<and>
   f_value exact_floats (coerce_mesh_size (PyNum 1)) \<noteq> Fin 0 \<and>
   f_value exact_floats (f_div exact_floats (f_sub exact_floats 2 0)
                           (coerce_mesh_size (PyNum 1))) = Fin 2 \<and>
   (2 :: nat) = nat (max 2 \<lfloor>2 :: real\<rfloor>) \<and>
   (\<exists>gen' m. generate_quad_mesh convex_lib exact_floats \<lparr>current_mesh_id = 1\<rparr> [cut_square]
                (PyNum 1) = (gen', Inr (Some m)) \<and>
      length (nodes m) = 9 \<and>
      cell_ids 2 1 1 \<in> set (elements m) \<and>
      cell_ids 2 1 0 \<notin> set (elements m))"
proof -
  have a: "shape_active cut_square"
    by (simp add: cut_square_def Shape_def)
  have cm: "coerce_mesh_size (PyNum 1) = 1" by (simp add: coerce_mesh_size_def)
  have c: "f_value exact_floats (coerce_mesh_size (PyNum 1)) \<noteq> Fin 0"
    by (simp add: cm exact_value_small)
  have g: "shape_geometry cut_square = Polygon [(0, 0), (2, 0), (2, 2), (3 / 2, 2), (0, 1)]"
    by (simp add: cut_square_def Shape_def)
  have b: "bounds convex_lib (shape_geometry cut_square) = (0, 0, 2, 2)"
    by (simp add: g convex_lib_def)
  have f0: "f_value exact_floats 0 = Fin 0" and f2: "f_value exact_floats 2 = Fin 2"
    by (simp_all add: exact_value_small)
  have q: "f_value exact_floats (f_div exact_floats (f_sub exact_floats 2 0)
                           (coerce_mesh_size (PyNum 1))) = Fin 2"
    by (simp add: cm exact_value_small)
  have n: "(2 :: nat) = nat (max 2 \<lfloor>2 :: real\<rfloor>)" by simp
  let ?gp = "grid_point exact_floats 0 0 (f_sub exact_floats 2 0) (f_sub exact_floats 2 0) 2 2"
  have three: "3 \<le> length (filter
      (\<lambda>p. contains convex_lib (shape_geometry cut_square) p \<or>
           touches convex_lib (shape_geometry cut_square) p)
      [?gp 1 1, ?gp 1 (1 + 1), ?gp (1 + 1) (1 + 1), ?gp (1 + 1) 1])"
    by (simp add: g convex_lib_def grid_point_def cross_def)
  have two: "\<not> 3 \<le> length (filter
      (\<lambda>p. contains convex_lib (shape_geometry cut_square) p \<or>
           touches convex_lib (shape_geometry cut_square) p)
      [?gp 1 0, ?gp 1 (0 + 1), ?gp (1 + 1) (0 + 1), ?gp (1 + 1) 0])"
    by (simp add: g convex_lib_def grid_point_def cross_def)
  from quad_mesh_grid_and_inclusion
    [OF a b exact_value_inf f0 f0 f2 f2 c q q n n, of "\<lparr>current_mesh_id = 1\<rparr>"]
  obtain gen' m where r: "generate_quad_mesh convex_lib exact_floats \<lparr>current_mesh_id = 1\<rparr>
        [cut_square] (PyNum 1) = (gen', Inr (Some m))"
    and l: "length (nodes m) = (2 + 1) * (2 + 1)"
    and i: "\<forall>i < 2. \<forall>j < 2.
        cell_ids 2 i j \<in> set (elements m) \<longleftrightarrow>
          3 \<le> length (filter
                 (\<lambda>p. contains convex_lib (shape_geometry cut_square) p \<or>
                      touches convex_lib (shape_geometry cut_square) p)
                 [?gp i j, ?gp i (j + 1), ?gp (i + 1) (j + 1), ?gp (i + 1) j])"
    by blast
  have "cell_ids 2 1 1 \<in> set (elements m)"
    using i [rule_format, of 1 1] three by simp
  moreover have "cell_ids 2 1 0 \<notin> set (elements m)"
    using i [rule_format, of 1 0] two by simp
  moreover have "length (nodes m) = 9" using l by simp
  ultimately show ?thesis using a c b n r f0 f2 q exact_value_inf by blast
qed

end
